theory Spec2Isabelle
  imports Complex_Main "HOL-Library.AList" "HOL-Library.Sublist"
begin

section \<open>Data model\<close>

text \<open>
  The dataclass \<open>SystemSnapshot\<close>. Python floats are modelled as reals (the finite values a
  measurement can take), Python integers as \<open>int\<close>, the timestamp as a string.
\<close>

record SystemSnapshot =
  timestamp :: string
  cpu_percent :: real
  memory_percent :: real
  memory_used_gb :: real
  memory_total_gb :: real
  disk_percent :: real
  disk_used_gb :: real
  disk_total_gb :: real
  network_bytes_sent :: int
  network_bytes_recv :: int
  active_connections :: int

text \<open>
  Where the code computes with floats, the exact result is rounded to a double. The
  rounding is arithmetic of the language and is a parameter of the functions that
  compute, named \<open>to_float\<close>.
\<close>

type_synonym rounding = "real \<Rightarrow> real"

text \<open>The exceptions the modelled code can raise.\<close>

datatype py_exn =
  KeyError | ValueError | TypeError | OSError | AttributeError | ZeroDivisionError | EOFError |
  IndexError | StatisticsError | UnicodeError | UnicodeEncodeError

text \<open>
  The mutable attributes of a \<open>SystemMonitor\<close> object: the platform name, the history list,
  the alert switch and the threshold dictionary (keys are metric names).
\<close>

record SystemMonitor =
  platform :: string
  snapshots :: "SystemSnapshot list"
  alerts_enabled :: bool
  alert_thresholds :: "string \<rightharpoonup> real"

text \<open>\<open>SystemMonitor.__init__\<close>: empty history, alerts on, thresholds 80 / 85 / 90.\<close>

definition init_thresholds :: "string \<rightharpoonup> real" where
  "init_thresholds = [''cpu'' \<mapsto> 80, ''memory'' \<mapsto> 85, ''disk'' \<mapsto> 90]"

definition init_monitor :: "string \<Rightarrow> SystemMonitor" where
  "init_monitor p =
     \<lparr>platform = p, snapshots = [], alerts_enabled = True, alert_thresholds = init_thresholds\<rparr>"

section \<open>Alert evaluation\<close>

text \<open>
  One constructor per alert text built by \<open>_check_alerts\<close>; the argument is the value that
  the f-string formats.
\<close>

datatype alert = HIGH_CPU real | HIGH_MEMORY real | HIGH_DISK real

datatype metric = Cpu | Memory | Disk

fun alert_metric :: "alert \<Rightarrow> metric" where
  "alert_metric (HIGH_CPU v) = Cpu"
| "alert_metric (HIGH_MEMORY v) = Memory"
| "alert_metric (HIGH_DISK v) = Disk"

fun alert_value :: "alert \<Rightarrow> real" where
  "alert_value (HIGH_CPU v) = v"
| "alert_value (HIGH_MEMORY v) = v"
| "alert_value (HIGH_DISK v) = v"

text \<open>What the code prints: the alert header with the timestamp, one line per alert, a blank line.\<close>

datatype out_line = AlertsHeader string | AlertLine alert | BlankLine

text \<open>Dictionary subscript \<open>d[k]\<close>: a missing key raises \<open>KeyError\<close>.\<close>

definition subscript :: "(string \<rightharpoonup> 'v) \<Rightarrow> string \<Rightarrow> py_exn + 'v" where
  "subscript d k = (case d k of None \<Rightarrow> Inl KeyError | Some v \<Rightarrow> Inr v)"

text \<open>
  The first half of \<open>_check_alerts\<close>: the local list \<open>alerts\<close> after the three tests, each
  of which reads its threshold and appends at the tail.
\<close>

definition collect_alerts :: "SystemSnapshot \<Rightarrow> (string \<rightharpoonup> real) \<Rightarrow> py_exn + alert list" where
  "collect_alerts s th =
     (let alerts0 = [] in
      case subscript th ''cpu'' of Inl e \<Rightarrow> Inl e | Inr tc \<Rightarrow>
      let alerts1 = (if cpu_percent s > tc then alerts0 @ [HIGH_CPU (cpu_percent s)] else alerts0) in
      case subscript th ''memory'' of Inl e \<Rightarrow> Inl e | Inr tm \<Rightarrow>
      let alerts2 = (if memory_percent s > tm then alerts1 @ [HIGH_MEMORY (memory_percent s)] else alerts1) in
      case subscript th ''disk'' of Inl e \<Rightarrow> Inl e | Inr td \<Rightarrow>
      let alerts3 = (if disk_percent s > td then alerts2 @ [HIGH_DISK (disk_percent s)] else alerts2) in
      Inr alerts3)"

text \<open>\<open>_check_alerts\<close>: the lines printed for a snapshot (nothing when the list is empty).\<close>

definition check_alerts :: "SystemSnapshot \<Rightarrow> (string \<rightharpoonup> real) \<Rightarrow> py_exn + out_line list" where
  "check_alerts s th =
     (case collect_alerts s th of
        Inl e \<Rightarrow> Inl e
      | Inr alerts \<Rightarrow>
          Inr (if alerts \<noteq> [] then AlertsHeader (timestamp s) # map AlertLine alerts @ [BlankLine]
               else []))"

text \<open>
  The alert rule in the words of the specification, for comparison with \<open>collect_alerts\<close>:
  go through cpu, memory, disk in this order and emit one alert for each metric whose
  snapshot value is strictly above its threshold.
\<close>

fun threshold_key :: "metric \<Rightarrow> string" where
  "threshold_key Cpu = ''cpu''"
| "threshold_key Memory = ''memory''"
| "threshold_key Disk = ''disk''"

fun metric_value :: "metric \<Rightarrow> SystemSnapshot \<Rightarrow> real" where
  "metric_value Cpu s = cpu_percent s"
| "metric_value Memory s = memory_percent s"
| "metric_value Disk s = disk_percent s"

fun mk_alert :: "metric \<Rightarrow> real \<Rightarrow> alert" where
  "mk_alert Cpu v = HIGH_CPU v"
| "mk_alert Memory v = HIGH_MEMORY v"
| "mk_alert Disk v = HIGH_DISK v"

definition exceeds :: "SystemSnapshot \<Rightarrow> (string \<rightharpoonup> real) \<Rightarrow> metric \<Rightarrow> bool" where
  "exceeds s th k = (case th (threshold_key k) of None \<Rightarrow> False | Some t \<Rightarrow> metric_value k s > t)"

definition spec_evaluate :: "SystemSnapshot \<Rightarrow> (string \<rightharpoonup> real) \<Rightarrow> alert list" where
  "spec_evaluate s th =
     map (\<lambda>k. mk_alert k (metric_value k s)) (filter (exceeds s th) [Cpu, Memory, Disk])"

definition sample_snapshot :: "real \<Rightarrow> SystemSnapshot" where
  "sample_snapshot c =
     \<lparr>timestamp = ''2024-01-01 00:00:00'', cpu_percent = c,
      memory_percent = 40, memory_used_gb = 6.4, memory_total_gb = 16,
      disk_percent = 90, disk_used_gb = 450, disk_total_gb = 500,
      network_bytes_sent = 1000, network_bytes_recv = 2000, active_connections = 7\<rparr>"

section \<open>Taking a snapshot\<close>

text \<open>
  What the operating system answers during one call of \<open>take_snapshot\<close>: the results of
  \<open>get_cpu_usage\<close>, \<open>get_memory_usage\<close>, \<open>get_disk_usage\<close>, \<open>_get_network_stats\<close>
  (bytes sent, bytes received), \<open>get_active_connections\<close> and the formatted clock.
\<close>

record readings =
  r_cpu :: real
  r_memory :: "real \<times> real \<times> real"
  r_disk :: "real \<times> real \<times> real"
  r_network :: "int \<times> int"
  r_connections :: int
  r_now :: string

definition build_snapshot :: "readings \<Rightarrow> SystemSnapshot" where
  "build_snapshot r =
     (let cpu = r_cpu r;
          (mem_percent, mem_used, mem_total) = r_memory r;
          (dsk_percent, dsk_used, dsk_total) = r_disk r;
          (sent, recv) = r_network r;
          connections = r_connections r
      in \<lparr>timestamp = r_now r, cpu_percent = cpu,
          memory_percent = mem_percent, memory_used_gb = mem_used, memory_total_gb = mem_total,
          disk_percent = dsk_percent, disk_used_gb = dsk_used, disk_total_gb = dsk_total,
          network_bytes_sent = sent, network_bytes_recv = recv,
          active_connections = connections\<rparr>)"

text \<open>Python's \<open>xs[-100:]\<close> on a list longer than 100: its last 100 elements.\<close>

definition keep_last :: "nat \<Rightarrow> 'a list \<Rightarrow> 'a list" where
  "keep_last n xs = drop (length xs - n) xs"

text \<open>
  \<open>take_snapshot\<close> once the collectors have returned their readings (the method from the
  construction of the snapshot on): build the snapshot, append it to \<open>self.snapshots\<close>,
  cut the list to its last 100 entries when it is longer, run the alert check when alerts
  are enabled, return the snapshot. The result is the returned value (or the exception
  raised by the alert check) with the printed lines, and the monitor as the call leaves
  it: the append has already happened when the alert check runs. The calls of the
  collectors, which can raise before any of this, are added in \<open>take_snapshot_call\<close>
  below.
\<close>

definition take_snapshot ::
  "readings \<Rightarrow> SystemMonitor \<Rightarrow> (py_exn + SystemSnapshot \<times> out_line list) \<times> SystemMonitor" where
  "take_snapshot r m =
     (let snapshot = build_snapshot r;
          m1 = m\<lparr>snapshots := snapshots m @ [snapshot]\<rparr>;
          m2 = (if length (snapshots m1) > 100
                then m1\<lparr>snapshots := keep_last 100 (snapshots m1)\<rparr> else m1)
      in if alerts_enabled m2
         then (case check_alerts snapshot (alert_thresholds m2) of
                 Inl e \<Rightarrow> (Inl e, m2)
               | Inr out \<Rightarrow> (Inr (snapshot, out), m2))
         else (Inr (snapshot, []), m2))"

text \<open>
  A sequence of calls of \<open>take_snapshot\<close> on the same monitor, one per element of the
  list; each call starts from the monitor as the previous call left it.
\<close>

fun take_snapshots :: "readings list \<Rightarrow> SystemMonitor \<Rightarrow> SystemMonitor" where
  "take_snapshots [] m = m"
| "take_snapshots (r # rs) m = take_snapshots rs (snd (take_snapshot r m))"

section \<open>Configuring the alerts\<close>

text \<open>
  A value of Python's \<open>float\<close> as \<open>float(text)\<close> can return it: a finite number, an
  infinity or a NaN. The parser itself is library code and is a parameter of the model:
  \<open>None\<close> stands for the \<open>ValueError\<close> that \<open>float\<close> raises on text that is no number.
\<close>

datatype pyfloat = Finite real | PosInf | NegInf | NaN

type_synonym float_parser = "string \<Rightarrow> pyfloat option"

text \<open>\<open>str.strip()\<close> and \<open>str.lower()\<close> on ASCII text.\<close>

definition is_space :: "char \<Rightarrow> bool" where
  "is_space c = (c \<in> set [CHR '' '', CHR 0x09, CHR 0x0A, CHR 0x0B, CHR 0x0C, CHR 0x0D,
                            CHR 0x1C, CHR 0x1D, CHR 0x1E, CHR 0x1F])"

definition strip :: "string \<Rightarrow> string" where
  "strip s = rev (dropWhile is_space (rev (dropWhile is_space s)))"

definition lower_char :: "char \<Rightarrow> char" where
  "lower_char c =
     (if (65::nat) \<le> of_char c \<and> of_char c \<le> (90::nat) then char_of (of_char c + (32::nat)) else c)"

definition lower :: "string \<Rightarrow> string" where
  "lower s = map lower_char s"

text \<open>The lines \<open>configure_alerts\<close> prints in answer to an input.\<close>

datatype cfg_msg =
  ThresholdSet string real | InvalidThreshold string | InvalidValue string | AlertsToggled bool

text \<open>
  The body of the \<open>try\<close> in the loop of \<open>configure_alerts\<close>, for one metric and the
  line typed for it. An empty line keeps the current value. The chained comparison
  \<open>0 < threshold <= 100\<close> is false for an infinity and for a NaN, so only a finite
  number can be stored.
\<close>

definition threshold_step ::
  "float_parser \<Rightarrow> string \<Rightarrow> string \<Rightarrow> (string \<rightharpoonup> real) \<Rightarrow> cfg_msg list \<times> (string \<rightharpoonup> real)" where
  "threshold_step float_of metric line th =
     (let new_value = strip line in
      if new_value \<noteq> [] then
        (case float_of new_value of
           None \<Rightarrow> ([InvalidValue metric], th)
         | Some (Finite threshold) \<Rightarrow>
             if 0 < threshold \<and> threshold \<le> 100
             then ([ThresholdSet metric threshold], th(metric \<mapsto> threshold))
             else ([InvalidThreshold metric], th)
         | Some _ \<Rightarrow> ([InvalidThreshold metric], th))
      else ([], th))"

text \<open>
  The loop over the metric names. Each round first reads the current threshold (a
  \<open>KeyError\<close> when the key is missing), then one line of input (\<open>EOFError\<close> when the
  input has ended). The result is the exception that ended the loop, if any, with the
  printed lines, the thresholds and the input left over.
\<close>

fun threshold_loop ::
  "float_parser \<Rightarrow> string list \<Rightarrow> string list \<Rightarrow> (string \<rightharpoonup> real) \<Rightarrow>
     py_exn option \<times> cfg_msg list \<times> (string \<rightharpoonup> real) \<times> string list" where
  "threshold_loop float_of [] stdin th = (None, [], th, stdin)"
| "threshold_loop float_of (metric # metrics) stdin th =
     (case subscript th metric of
        Inl e \<Rightarrow> (Some e, [], th, stdin)
      | Inr current \<Rightarrow>
          (case stdin of
             [] \<Rightarrow> (Some EOFError, [], th, stdin)
           | line # rest \<Rightarrow>
               (let (msgs, th1) = threshold_step float_of metric line th;
                    (e, msgs', th2, rest') = threshold_loop float_of metrics rest th1
                in (e, msgs @ msgs', th2, rest'))))"

text \<open>
  \<open>configure_alerts\<close>: the loop over cpu, memory, disk, then the question whether to
  toggle the alert switch. The monitor is returned as the call leaves it, also when an
  exception ends the call.
\<close>

definition configure_alerts ::
  "float_parser \<Rightarrow> string list \<Rightarrow> SystemMonitor \<Rightarrow> py_exn option \<times> cfg_msg list \<times> SystemMonitor" where
  "configure_alerts float_of stdin m =
     (let (e, msgs, th, rest) =
            threshold_loop float_of [''cpu'', ''memory'', ''disk''] stdin (alert_thresholds m);
          m1 = m\<lparr>alert_thresholds := th\<rparr>
      in case e of
           Some x \<Rightarrow> (Some x, msgs, m1)
         | None \<Rightarrow>
             (case rest of
                [] \<Rightarrow> (Some EOFError, msgs, m1)
              | answer # _ \<Rightarrow>
                  (let toggle = lower answer in
                   if toggle = ''y''
                   then (None, msgs @ [AlertsToggled (\<not> alerts_enabled m1)],
                         m1\<lparr>alerts_enabled := \<not> alerts_enabled m1\<rparr>)
                   else (None, msgs, m1))))"

text \<open>
  The value a typed line proposes and the operation accepts, in the words of the
  specification: a number \<open>v\<close> with \<open>0 < v \<le> 100\<close>.
\<close>

definition accepted :: "float_parser \<Rightarrow> string \<Rightarrow> real option" where
  "accepted float_of line =
     (if strip line = [] then None
      else case float_of (strip line) of
             Some (Finite v) \<Rightarrow> if 0 < v \<and> v \<le> 100 then Some v else None
           | _ \<Rightarrow> None)"

definition store_accepted ::
  "float_parser \<Rightarrow> string \<Rightarrow> string \<Rightarrow> (string \<rightharpoonup> real) \<Rightarrow> (string \<rightharpoonup> real)" where
  "store_accepted float_of metric line th =
     (case accepted float_of line of Some v \<Rightarrow> th(metric \<mapsto> v) | None \<Rightarrow> th)"

text \<open>A parser that knows a few texts, to run the definitions.\<close>

definition sample_float :: float_parser where
  "sample_float s =
     (if s = ''75'' then Some (Finite 75)
      else if s = ''100'' then Some (Finite 100)
      else if s = ''0'' then Some (Finite 0)
      else if s = ''150'' then Some (Finite 150)
      else if s = ''nan'' then Some NaN
      else if s = ''inf'' then Some PosInf
      else None)"

section \<open>Disk usage\<close>

text \<open>
  What \<open>get_disk_usage\<close> sees of the host. \<open>has_statvfs\<close> is \<open>hasattr(os, 'statvfs')\<close>.
  \<open>encodable\<close> tells which paths the file-system encoding of the host can encode (a
  path with a lone surrogate, for one, it cannot). \<open>statvfs\<close> is the query that
  \<open>os.statvfs\<close> makes for a path it has accepted: it fails with \<open>OSError\<close> (the value
  \<open>None\<close>) or answers with an object, given here by its integer attributes.
  \<open>windll_disk_space\<close> is \<open>GetDiskFreeSpaceExW\<close> reached through \<open>ctypes.windll\<close>, an
  attribute that exists on Windows only (\<open>None\<close> elsewhere); it leaves the free and the
  total byte counts in its two out-parameters, which start at 0.
\<close>

record disk_env =
  has_statvfs :: bool
  encodable :: "string \<Rightarrow> bool"
  statvfs :: "string \<Rightarrow> (string \<rightharpoonup> int) option"
  windll_disk_space :: "(string \<Rightarrow> int \<times> int) option"

text \<open>Attribute access \<open>obj.name\<close>: a missing attribute raises \<open>AttributeError\<close>.\<close>

definition getattr :: "(string \<rightharpoonup> 'v) \<Rightarrow> string \<Rightarrow> py_exn + 'v" where
  "getattr obj name = (case obj name of None \<Rightarrow> Inl AttributeError | Some v \<Rightarrow> Inr v)"

text \<open>
  Python's \<open>a / b\<close> on numbers: a zero divisor raises \<open>ZeroDivisionError\<close>, and the
  quotient is a float.
\<close>

definition truediv :: "rounding \<Rightarrow> real \<Rightarrow> real \<Rightarrow> py_exn + real" where
  "truediv to_float a b = (if b = 0 then Inl ZeroDivisionError else Inr (to_float (a / b)))"

text \<open>Sequencing of steps that can raise: the first exception ends the sequence.\<close>

definition and_then :: "py_exn + 'a \<Rightarrow> ('a \<Rightarrow> py_exn + 'b) \<Rightarrow> py_exn + 'b" where
  "and_then x f = (case x of Inl e \<Rightarrow> Inl e | Inr v \<Rightarrow> f v)"

text \<open>
  The call \<open>os.statvfs(path)\<close>. Before it asks the operating system, the library
  converts the path: a path that the file-system encoding cannot encode raises
  \<open>UnicodeEncodeError\<close>, a path with a NUL character raises \<open>ValueError\<close>. Neither is
  an \<open>OSError\<close>.
\<close>

definition os_statvfs :: "disk_env \<Rightarrow> string \<Rightarrow> py_exn + (string \<rightharpoonup> int)" where
  "os_statvfs env path =
     (if \<not> encodable env path then Inl UnicodeEncodeError
      else if CHR 0x00 \<in> set path then Inl ValueError
      else case statvfs env path of None \<Rightarrow> Inl OSError | Some st \<Rightarrow> Inr st)"

text \<open>
  The argument \<open>ctypes.c_wchar_p(path)\<close> of the Windows call: a path with a NUL
  character raises \<open>ValueError\<close>.
\<close>

definition c_wchar_p :: "string \<Rightarrow> py_exn + string" where
  "c_wchar_p path = (if CHR 0x00 \<in> set path then Inl ValueError else Inr path)"

text \<open>
  The first part of the \<open>try\<close> block: the pair \<open>(total_bytes, used_bytes)\<close>, from
  \<open>statvfs\<close> where the platform has it and from the Windows call otherwise.
\<close>

definition disk_bytes :: "disk_env \<Rightarrow> string \<Rightarrow> py_exn + int \<times> int" where
  "disk_bytes env path =
     (if has_statvfs env then
        and_then (os_statvfs env path) (\<lambda>st.
        and_then (getattr st ''f_frsize'') (\<lambda>frsize.
        and_then (getattr st ''f_blocks'') (\<lambda>blocks.
        let total_bytes = frsize * blocks in
        and_then (getattr st ''f_frsize'') (\<lambda>frsize'.
        and_then (getattr st ''f_available'') (\<lambda>available.
        let free_bytes = frsize' * available;
            used_bytes = total_bytes - free_bytes
        in Inr (total_bytes, used_bytes))))))
      else
        (case windll_disk_space env of
           None \<Rightarrow> Inl AttributeError
         | Some query \<Rightarrow>
             and_then (c_wchar_p path) (\<lambda>wide_path.
             let (free_bytes, total_bytes) = query wide_path;
                 used_bytes = total_bytes - free_bytes
             in Inr (total_bytes, used_bytes))))"

text \<open>The whole \<open>try\<close> block: the triple \<open>(percent, used_gb, total_gb)\<close>.\<close>

definition disk_usage_body ::
  "rounding \<Rightarrow> disk_env \<Rightarrow> string \<Rightarrow> py_exn + real \<times> real \<times> real" where
  "disk_usage_body to_float env path =
     and_then (disk_bytes env path) (\<lambda>(total_bytes, used_bytes).
     and_then (truediv to_float (real_of_int total_bytes) (1024 ^ 3)) (\<lambda>total_gb.
     and_then (truediv to_float (real_of_int used_bytes) (1024 ^ 3)) (\<lambda>used_gb.
     and_then (if total_bytes > 0
               then and_then (truediv to_float (real_of_int used_bytes) (real_of_int total_bytes))
                      (\<lambda>q. Inr (to_float (q * 100)))
               else Inr 0) (\<lambda>percent.
     Inr (percent, used_gb, total_gb)))))"

text \<open>The path used when the caller gives none.\<close>

definition default_path :: "string \<Rightarrow> string" where
  "default_path plat = (if plat = ''windows'' then [CHR ''C'', CHR '':'', CHR 0x5C] else ''/'')"

text \<open>
  \<open>get_disk_usage\<close>: the default path of the platform when none is given, and the
  handler \<open>except (OSError, AttributeError)\<close>, which lets any other exception pass.
\<close>

definition get_disk_usage ::
  "rounding \<Rightarrow> disk_env \<Rightarrow> string \<Rightarrow> string option \<Rightarrow> py_exn + real \<times> real \<times> real" where
  "get_disk_usage to_float env plat path =
     (let path' = (case path of None \<Rightarrow> default_path plat | Some q \<Rightarrow> q)
      in case disk_usage_body to_float env path' of
           Inl e \<Rightarrow> if e = OSError \<or> e = AttributeError then Inr (0, 0, 0) else Inl e
         | Inr t \<Rightarrow> Inr t)"

text \<open>A path without a NUL character that the host can encode.\<close>

definition well_formed_path :: "disk_env \<Rightarrow> string \<Rightarrow> bool" where
  "well_formed_path env path = (encodable env path \<and> CHR 0x00 \<notin> set path)"

text \<open>
  Hosts to run the definitions on, all of which can encode every path: one whose
  \<open>statvfs\<close> object has the attributes the code reads and reports an empty file system,
  one whose object has the attribute names of the Python library, one with those the code
  reads and a quarter of the blocks free, one whose query fails, and a Windows host with
  an empty volume.
\<close>

definition empty_fs_env :: disk_env where
  "empty_fs_env =
     \<lparr>has_statvfs = True, encodable = (\<lambda>p. True),
      statvfs = (\<lambda>p. Some [''f_frsize'' \<mapsto> 4096, ''f_blocks'' \<mapsto> 0, ''f_available'' \<mapsto> 0]),
      windll_disk_space = None\<rparr>"

definition posix_env :: disk_env where
  "posix_env =
     \<lparr>has_statvfs = True, encodable = (\<lambda>p. True),
      statvfs = (\<lambda>p. Some [''f_bsize'' \<mapsto> 4096, ''f_frsize'' \<mapsto> 4096, ''f_blocks'' \<mapsto> 1000,
                           ''f_bfree'' \<mapsto> 400, ''f_bavail'' \<mapsto> 300]),
      windll_disk_space = None\<rparr>"

definition quarter_free_env :: disk_env where
  "quarter_free_env =
     \<lparr>has_statvfs = True, encodable = (\<lambda>p. True),
      statvfs = (\<lambda>p. Some [''f_frsize'' \<mapsto> 4096, ''f_blocks'' \<mapsto> 1000, ''f_available'' \<mapsto> 250]),
      windll_disk_space = None\<rparr>"

definition failing_env :: disk_env where
  "failing_env =
     \<lparr>has_statvfs = True, encodable = (\<lambda>p. True), statvfs = (\<lambda>p. None),
      windll_disk_space = None\<rparr>"

definition windows_env :: disk_env where
  "windows_env =
     \<lparr>has_statvfs = False, encodable = (\<lambda>p. True), statvfs = (\<lambda>p. None),
      windll_disk_space = Some (\<lambda>p. (0, 0))\<rparr>"

section \<open>The whole call of \<open>take_snapshot\<close>\<close>

text \<open>
  How the calls at the head of \<open>take_snapshot\<close> end, in the order the method makes them:
  \<open>get_cpu_usage\<close>, \<open>get_memory_usage\<close>, \<open>get_disk_usage\<close> and
  \<open>_get_network_stats\<close> each return a value or let an exception escape that their own
  handlers do not name (the Windows branch of \<open>get_memory_usage\<close> divides by a total of
  0 bytes when the system command gives no output, a \<open>ZeroDivisionError\<close>);
  \<open>get_active_connections\<close> catches everything and always returns a count.
\<close>

record collectors =
  c_cpu :: "py_exn + real"
  c_memory :: "py_exn + real \<times> real \<times> real"
  c_disk :: "py_exn + real \<times> real \<times> real"
  c_network :: "py_exn + int \<times> int"
  c_connections :: int
  c_now :: string

text \<open>The first statements of the method: the first exception that escapes ends them.\<close>

definition collect :: "collectors \<Rightarrow> py_exn + readings" where
  "collect c =
     and_then (c_cpu c) (\<lambda>cpu.
     and_then (c_memory c) (\<lambda>memory.
     and_then (c_disk c) (\<lambda>disk.
     and_then (c_network c) (\<lambda>network.
     let connections = c_connections c
     in Inr \<lparr>r_cpu = cpu, r_memory = memory, r_disk = disk, r_network = network,
              r_connections = connections, r_now = c_now c\<rparr>))))"

text \<open>
  The whole method: an exception of a collector leaves it before the snapshot is built,
  so before the append, and the monitor is as it was.
\<close>

definition take_snapshot_call ::
  "collectors \<Rightarrow> SystemMonitor \<Rightarrow> (py_exn + SystemSnapshot \<times> out_line list) \<times> SystemMonitor" where
  "take_snapshot_call c m =
     (case collect c of
        Inl e \<Rightarrow> (Inl e, m)
      | Inr r \<Rightarrow> take_snapshot r m)"

text \<open>
  Collectors that all return (the values of \<open>sample_readings\<close> with CPU load 1), and
  the same with a memory query that divides by zero.
\<close>

definition sample_collectors :: collectors where
  "sample_collectors =
     \<lparr>c_cpu = Inr 1, c_memory = Inr (40, 6.4, 16), c_disk = Inr (55, 275, 500),
      c_network = Inr (1000, 2000), c_connections = 7, c_now = ''2024-01-01 00:00:00''\<rparr>"

definition failing_collectors :: collectors where
  "failing_collectors = sample_collectors\<lparr>c_memory := Inl ZeroDivisionError\<rparr>"

section \<open>Historical analysis\<close>

text \<open>
  \<open>statistics.mean\<close> adds the data and divides by their number exactly, and returns the
  quotient converted to a float, that is, rounded to a double; it raises
  \<open>StatisticsError\<close> on an empty list. The conversion is arithmetic of the library and is
  a parameter of the model, \<open>to_float\<close>: what the code prints and compares is the rounded
  mean. Then \<open>max\<close> and \<open>min\<close> of a list (\<open>ValueError\<close> on an empty one), and the
  subscripts \<open>xs[0]\<close> and \<open>xs[-1]\<close> (\<open>IndexError\<close> on an empty list).
\<close>

definition mean :: "rounding \<Rightarrow> real list \<Rightarrow> py_exn + real" where
  "mean to_float xs =
     (if xs = [] then Inl StatisticsError else Inr (to_float (sum_list xs / real (length xs))))"

definition py_max :: "real list \<Rightarrow> py_exn + real" where
  "py_max xs = (case xs of [] \<Rightarrow> Inl ValueError | x # rest \<Rightarrow> Inr (fold max rest x))"

definition py_min :: "real list \<Rightarrow> py_exn + real" where
  "py_min xs = (case xs of [] \<Rightarrow> Inl ValueError | x # rest \<Rightarrow> Inr (fold min rest x))"

definition item_first :: "'a list \<Rightarrow> py_exn + 'a" where
  "item_first xs = (case xs of [] \<Rightarrow> Inl IndexError | x # _ \<Rightarrow> Inr x)"

definition item_last :: "'a list \<Rightarrow> py_exn + 'a" where
  "item_last xs = (if xs = [] then Inl IndexError else Inr (last xs))"

datatype direction = Increasing | Decreasing

text \<open>
  What \<open>display_historical_analysis\<close> prints, line by line: the message for a history
  of fewer than two snapshots; otherwise the number of data points, the time range, the
  average, peak and low of CPU and of memory, and the CPU trend with the two means it
  compared. (Rules and headings carry no data and are left out.)
\<close>

datatype report_line =
    NotEnoughData
  | DataPoints nat
  | TimeRange string string
  | CpuStatistics real real real
  | MemoryStatistics real real real
  | CpuTrend direction real real

definition cpu_trend_lines :: "rounding \<Rightarrow> real list \<Rightarrow> py_exn + report_line list" where
  "cpu_trend_lines to_float cpu_values =
     (if length cpu_values \<ge> 10 then
        and_then (mean to_float (keep_last 5 cpu_values)) (\<lambda>recent_cpu.
        and_then (mean to_float (take 5 cpu_values)) (\<lambda>older_cpu.
        let cpu_trend = (if recent_cpu > older_cpu then Increasing else Decreasing)
        in Inr [CpuTrend cpu_trend recent_cpu older_cpu]))
      else Inr [])"

definition display_historical_analysis ::
  "rounding \<Rightarrow> SystemSnapshot list \<Rightarrow> py_exn + report_line list" where
  "display_historical_analysis to_float snaps =
     (if length snaps < 2 then Inr [NotEnoughData]
      else
        let cpu_values = map cpu_percent snaps;
            mem_values = map memory_percent snaps
        in
        and_then (item_first snaps) (\<lambda>oldest.
        and_then (item_last snaps) (\<lambda>newest.
        and_then (mean to_float cpu_values) (\<lambda>cpu_avg.
        and_then (py_max cpu_values) (\<lambda>cpu_peak.
        and_then (py_min cpu_values) (\<lambda>cpu_low.
        and_then (mean to_float mem_values) (\<lambda>mem_avg.
        and_then (py_max mem_values) (\<lambda>mem_peak.
        and_then (py_min mem_values) (\<lambda>mem_low.
        and_then (cpu_trend_lines to_float cpu_values) (\<lambda>trend.
        Inr ([DataPoints (length snaps), TimeRange (timestamp oldest) (timestamp newest),
              CpuStatistics cpu_avg cpu_peak cpu_low,
              MemoryStatistics mem_avg mem_peak mem_low] @ trend)))))))))))"

fun is_trend :: "report_line \<Rightarrow> bool" where
  "is_trend (CpuTrend d recent older) = True"
| "is_trend _ = False"

text \<open>The arithmetic mean in the words of the specification: the sum over the count.\<close>

definition arithmetic_mean :: "real list \<Rightarrow> real" where
  "arithmetic_mean xs = sum_list xs / real (length xs)"

text \<open>
  A rounding to run the definitions with. Between 32 and 64 the doubles are the multiples
  of \<open>2 ^ -47\<close>; \<open>nearest_double\<close> is the nearest of them, which is what the conversion
  to a float returns for a number in that range (a number halfway between two of them
  aside).
\<close>

definition nearest_double :: rounding where
  "nearest_double x = real_of_int (round (x * 2 ^ 47)) / 2 ^ 47"

section \<open>Connectivity summary\<close>

datatype quality = Excellent | Good | Poor

text \<open>
  The lines of the connectivity summary that \<open>run_network_analysis\<close> prints from the
  dictionary returned by \<open>test_connectivity\<close> (host to round-trip time in ms, \<open>None\<close>
  for no answer): reachable servers out of all, average ping, connection quality. The
  dictionary is an association list in insertion order. The listing of the interfaces
  and the speed test, which the same method prints before and after, are left out.
\<close>

datatype summary_line = ReachableServers nat nat | AveragePing real | ConnectionQuality quality

definition valid_pings :: "(string \<times> real option) list \<Rightarrow> real list" where
  "valid_pings connectivity = [ping. (host, Some ping) \<leftarrow> connectivity]"

definition run_network_analysis ::
  "rounding \<Rightarrow> (string \<times> real option) list \<Rightarrow> py_exn + summary_line list" where
  "run_network_analysis to_float connectivity =
     (let pings = valid_pings connectivity in
      if pings \<noteq> [] then
        and_then (mean to_float pings) (\<lambda>avg_ping.
        Inr [ReachableServers (length pings) (length connectivity), AveragePing avg_ping,
             ConnectionQuality (if avg_ping < 50 then Excellent
                                else if avg_ping < 100 then Good else Poor)])
      else Inr [])"

fun is_quality :: "summary_line \<Rightarrow> bool" where
  "is_quality (ConnectionQuality q) = True"
| "is_quality _ = False"

section \<open>Saving and loading the history\<close>

text \<open>
  A parsed JSON document, as \<open>json.load\<close> returns it and \<open>json.dump\<close> takes it. An
  object is a Python dictionary: keys in insertion order, no key twice. Writing the text
  of a document to the file and parsing it back is the work of the \<open>json\<close> library and
  is not modelled: what is loaded is the document that was saved.
\<close>

datatype json =
    JNull
  | JBool bool
  | JInt int
  | JFloat real
  | JString string
  | JArray "json list"
  | JObject "(string \<times> json) list"

text \<open>\<open>dataclasses.asdict\<close> on a snapshot: the flat record, one entry per field.\<close>

definition asdict :: "SystemSnapshot \<Rightarrow> (string \<times> json) list" where
  "asdict s =
     [(''timestamp'', JString (timestamp s)),
      (''cpu_percent'', JFloat (cpu_percent s)),
      (''memory_percent'', JFloat (memory_percent s)),
      (''memory_used_gb'', JFloat (memory_used_gb s)),
      (''memory_total_gb'', JFloat (memory_total_gb s)),
      (''disk_percent'', JFloat (disk_percent s)),
      (''disk_used_gb'', JFloat (disk_used_gb s)),
      (''disk_total_gb'', JFloat (disk_total_gb s)),
      (''network_bytes_sent'', JInt (network_bytes_sent s)),
      (''network_bytes_recv'', JInt (network_bytes_recv s)),
      (''active_connections'', JInt (active_connections s))]"

text \<open>
  \<open>save_data\<close>: the document written to the data file, holding the last 50 snapshots
  and the time of saving.
\<close>

definition save_data :: "string \<Rightarrow> SystemSnapshot list \<Rightarrow> json" where
  "save_data now snaps =
     JObject [(''snapshots'', JArray (map (\<lambda>snapshot. JObject (asdict snapshot)) (keep_last 50 snaps))),
              (''saved_at'', JString now)]"

definition field_names :: "string list" where
  "field_names =
     [''timestamp'', ''cpu_percent'', ''memory_percent'', ''memory_used_gb'', ''memory_total_gb'',
      ''disk_percent'', ''disk_used_gb'', ''disk_total_gb'', ''network_bytes_sent'',
      ''network_bytes_recv'', ''active_connections'']"

text \<open>
  The values a field of the record can take. Python stores whatever value the document
  has; the record is typed, so a value of another kind than the field's counts here as a
  \<open>TypeError\<close>. A document written by \<open>save_data\<close> has no such value.
\<close>

fun as_str :: "json \<Rightarrow> py_exn + string" where
  "as_str (JString s) = Inr s"
| "as_str _ = Inl TypeError"

fun as_float :: "json \<Rightarrow> py_exn + real" where
  "as_float (JFloat x) = Inr x"
| "as_float (JInt i) = Inr (real_of_int i)"
| "as_float _ = Inl TypeError"

fun as_int :: "json \<Rightarrow> py_exn + int" where
  "as_int (JInt i) = Inr i"
| "as_int _ = Inl TypeError"

text \<open>
  \<open>SystemSnapshot(**snapshot)\<close>: the argument must be a mapping whose keys are exactly
  the eleven field names; an unexpected or a missing keyword is a \<open>TypeError\<close>.
\<close>

definition snapshot_of_dict :: "json \<Rightarrow> py_exn + SystemSnapshot" where
  "snapshot_of_dict j =
     (case j of
        JObject kvs \<Rightarrow>
          if \<not> list_all (\<lambda>k. k \<in> set field_names) (map fst kvs) then Inl TypeError
          else if \<not> list_all (\<lambda>k. k \<in> set (map fst kvs)) field_names then Inl TypeError
          else
            and_then (and_then (subscript (map_of kvs) ''timestamp'') as_str) (\<lambda>ts.
            and_then (and_then (subscript (map_of kvs) ''cpu_percent'') as_float) (\<lambda>cpu.
            and_then (and_then (subscript (map_of kvs) ''memory_percent'') as_float) (\<lambda>mp.
            and_then (and_then (subscript (map_of kvs) ''memory_used_gb'') as_float) (\<lambda>mu.
            and_then (and_then (subscript (map_of kvs) ''memory_total_gb'') as_float) (\<lambda>mt.
            and_then (and_then (subscript (map_of kvs) ''disk_percent'') as_float) (\<lambda>dp.
            and_then (and_then (subscript (map_of kvs) ''disk_used_gb'') as_float) (\<lambda>du.
            and_then (and_then (subscript (map_of kvs) ''disk_total_gb'') as_float) (\<lambda>dt.
            and_then (and_then (subscript (map_of kvs) ''network_bytes_sent'') as_int) (\<lambda>sent.
            and_then (and_then (subscript (map_of kvs) ''network_bytes_recv'') as_int) (\<lambda>recv.
            and_then (and_then (subscript (map_of kvs) ''active_connections'') as_int) (\<lambda>conns.
            Inr \<lparr>timestamp = ts, cpu_percent = cpu,
                 memory_percent = mp, memory_used_gb = mu, memory_total_gb = mt,
                 disk_percent = dp, disk_used_gb = du, disk_total_gb = dt,
                 network_bytes_sent = sent, network_bytes_recv = recv,
                 active_connections = conns\<rparr>)))))))))))
      | _ \<Rightarrow> Inl TypeError)"

text \<open>
  \<open>data.get('snapshots', [])\<close> needs a dictionary (anything else has no \<open>get\<close>:
  \<open>AttributeError\<close>). The comprehension then iterates over what it got: the elements of
  an array, the characters of a string, the keys of a dictionary; a number, a boolean or
  \<open>null\<close> cannot be iterated (\<open>TypeError\<close>).
\<close>

definition get_snapshots :: "json \<Rightarrow> py_exn + json" where
  "get_snapshots data =
     (case data of
        JObject kvs \<Rightarrow> Inr (case map_of kvs ''snapshots'' of None \<Rightarrow> JArray [] | Some v \<Rightarrow> v)
      | _ \<Rightarrow> Inl AttributeError)"

definition iterate :: "json \<Rightarrow> py_exn + json list" where
  "iterate j =
     (case j of
        JArray xs \<Rightarrow> Inr xs
      | JString s \<Rightarrow> Inr (map (\<lambda>c. JString [c]) s)
      | JObject kvs \<Rightarrow> Inr (map (\<lambda>kv. JString (fst kv)) kvs)
      | _ \<Rightarrow> Inl TypeError)"

fun map_exn :: "('a \<Rightarrow> py_exn + 'b) \<Rightarrow> 'a list \<Rightarrow> py_exn + 'b list" where
  "map_exn f [] = Inr []"
| "map_exn f (x # xs) = and_then (f x) (\<lambda>y. and_then (map_exn f xs) (\<lambda>ys. Inr (y # ys)))"

definition load_snapshots :: "json \<Rightarrow> py_exn + SystemSnapshot list" where
  "load_snapshots data =
     and_then (get_snapshots data) (\<lambda>items.
     and_then (iterate items) (\<lambda>xs. map_exn snapshot_of_dict xs))"

text \<open>
  \<open>load_historical_data\<close>. The data file is absent, or its text is no JSON
  (\<open>JSONDecodeError\<close>), or it parses to a document. The handler catches
  \<open>JSONDecodeError\<close> and \<open>TypeError\<close> and reports them; the history is replaced only
  when the whole list has been built.
\<close>

datatype data_file = Missing | Malformed | Document json

datatype load_msg = Loaded nat | ErrorLoading

definition load_historical_data ::
  "data_file \<Rightarrow> SystemMonitor \<Rightarrow> py_exn option \<times> load_msg list \<times> SystemMonitor" where
  "load_historical_data file m =
     (case file of
        Missing \<Rightarrow> (None, [], m)
      | Malformed \<Rightarrow> (None, [ErrorLoading], m)
      | Document data \<Rightarrow>
          (case load_snapshots data of
             Inr xs \<Rightarrow> (None, [Loaded (length xs)], m\<lparr>snapshots := xs\<rparr>)
           | Inl e \<Rightarrow> if e = TypeError then (None, [ErrorLoading], m) else (Some e, [], m)))"

section \<open>Probing the test servers\<close>

text \<open>
  What a host does when a connection to its port 80 is attempted: it accepts after some
  seconds, it refuses (or the attempt fails otherwise, an \<open>OSError\<close>) after some
  seconds, it never answers, or its name is one that the socket library cannot turn into
  a host name at all (\<open>'a..b'\<close> has an empty label) and rejects at once with
  \<open>UnicodeError\<close>, which is a \<open>ValueError\<close> and no \<open>OSError\<close>.
\<close>

datatype host_behaviour = Accepts real | Refuses real | Silent | BadName

type_synonym network = "string \<Rightarrow> host_behaviour"

















section \<open>Continuous monitoring\<close>

text \<open>
  The background thread that \<open>start_monitoring\<close> starts, on a time line in seconds.
  The flag \<open>self.running\<close> is set before the thread starts and cleared by
  \<open>stop_monitoring\<close> at the time \<open>stop_at\<close>; \<open>monitor_loop\<close> reads it at the top of
  each cycle and nowhere else. A cycle is \<open>display_current_status\<close>, that is,
  \<open>take_snapshot\<close>: the collectors run for some seconds (each system command may take
  up to 5), then the snapshot is appended; then \<open>time.sleep(interval)\<close>. An exception of
  \<open>take_snapshot\<close> is caught nowhere in the loop and ends the thread. The cycles are
  given by what the host does in them: the seconds the collectors take, and their
  results. The loop returns the times at which it appended, the time at which the thread
  ended and the monitor it left; \<open>None\<close> when the flag is still set after the last cycle
  that was given.
\<close>

fun monitor_loop ::
  "real \<Rightarrow> real \<Rightarrow> (real \<times> collectors) list \<Rightarrow> real \<Rightarrow> SystemMonitor \<Rightarrow>
     (real list \<times> real \<times> SystemMonitor) option" where
  "monitor_loop stop_at interval [] clock m =
     (if clock < stop_at then None else Some ([], clock, m))"
| "monitor_loop stop_at interval ((seconds, c) # cycles) clock m =
     (if clock < stop_at then
        (case collect c of
           Inl e \<Rightarrow> Some ([], clock + seconds, m)
         | Inr r \<Rightarrow>
             (case take_snapshot r m of
                (Inl e, m') \<Rightarrow> Some ([clock + seconds], clock + seconds, m')
              | (Inr shown, m') \<Rightarrow>
                  (case monitor_loop stop_at interval cycles (clock + seconds + interval) m' of
                     None \<Rightarrow> None
                   | Some (appends, ended, m'') \<Rightarrow> Some ((clock + seconds) # appends, ended, m''))))
      else Some ([], clock, m))"

text \<open>
  \<open>Thread.join(timeout)\<close> called at the time \<open>now\<close> on a thread that ends at
  \<open>thread_end\<close>: it returns when the thread has ended or when the timeout has passed,
  whichever comes first.
\<close>

definition join :: "real \<Rightarrow> real \<Rightarrow> real \<Rightarrow> real" where
  "join now timeout thread_end = (if thread_end \<le> now then now else min (now + timeout) thread_end)"

text \<open>
  \<open>stop_monitoring\<close> called at \<open>stop_at\<close>: it clears the flag, joins the thread with a
  timeout of 1 second, and then reports that monitoring has stopped and saves the data.
  The value is the time at which the join has returned, from which on the method takes
  the monitoring to be over.
\<close>

definition stop_monitoring :: "real \<Rightarrow> real \<Rightarrow> real" where
  "stop_monitoring stop_at thread_end = join stop_at 1 thread_end"

text \<open>The property asked of a run: every append is made by the time the stop has returned.\<close>

definition no_append_after :: "real \<Rightarrow> real list \<Rightarrow> bool" where
  "no_append_after returned appends = list_all (\<lambda>appended. appended \<le> returned) appends"

text \<open>Concrete inputs used to run the definitions: the \<open>i\<close>-th reading has CPU load \<open>i\<close>.\<close>

definition sample_readings :: "nat \<Rightarrow> readings" where
  "sample_readings i =
     \<lparr>r_cpu = real i, r_memory = (40, 6.4, 16), r_disk = (55, 275, 500),
      r_network = (1000, 2000), r_connections = 7, r_now = ''2024-01-01 00:00:00''\<rparr>"

definition linux_monitor :: SystemMonitor where
  "linux_monitor = init_monitor ''linux''"

text \<open>
  Histories: three snapshots, five snapshots, and twelve with the CPU load rising from 40
  to 51. Then two result dictionaries of
  \<open>test_connectivity\<close>: no host answered; three hosts answered, two after 50 ms and
  one after the next double below 50 ms.
\<close>

definition five_history :: "SystemSnapshot list" where
  "five_history = map sample_snapshot [10, 20, 30, 40, 50]"

definition short_history :: "SystemSnapshot list" where
  "short_history = map sample_snapshot [10, 20, 30]"

definition busy_history :: "SystemSnapshot list" where
  "busy_history = map sample_snapshot [40, 41, 42, 43, 44, 45, 46, 47, 48, 49, 50, 51]"

definition no_answers :: "(string \<times> real option) list" where
  "no_answers =
     [(''google.com'', None), (''cloudflare.com'', None), (''github.com'', None),
      (''stackoverflow.com'', None)]"

definition near_fifty :: "(string \<times> real option) list" where
  "near_fifty =
     [(''google.com'', Some 50), (''cloudflare.com'', Some 50), (''github.com'', Some (50 - 1 / 2 ^ 47)),
      (''stackoverflow.com'', None)]"

section \<open>History bound\<close>

lemma snapshots_take_snapshot:
  "snapshots (snd (take_snapshot r m)) =
     (if length (snapshots m) \<ge> 100
      then keep_last 100 (snapshots m @ [build_snapshot r])
      else snapshots m @ [build_snapshot r])"
  by (simp add: take_snapshot_def Let_def split: sum.splits)

lemma keep_last_append:
  "keep_last n (keep_last n xs @ ys) = keep_last n (xs @ ys)"
proof (cases "length xs \<le> n")
  case True
  then show ?thesis by (simp add: keep_last_def)
next
  case False
  define k where "k = length xs - n"
  have lx: "length xs = k + n" using False by (simp add: k_def)
  have d: "length (drop k xs) = n" by (simp add: lx)
  have "keep_last n (drop k xs @ ys) = drop (length ys) (drop k xs @ ys)"
    unfolding keep_last_def length_append d by simp
  also have "\<dots> = drop (k + length ys) (xs @ ys)"
    by (simp add: lx add.commute)
  also have "\<dots> = keep_last n (xs @ ys)"
    unfolding keep_last_def length_append lx by (simp add: add.commute add.left_commute)
  finally show ?thesis by (simp add: keep_last_def k_def)
qed

lemma snapshots_take_snapshots:
  "length (snapshots m) \<le> 100 \<Longrightarrow>
   snapshots (take_snapshots rs m) = keep_last 100 (snapshots m @ map build_snapshot rs)"
proof (induction rs arbitrary: m)
  case Nil
  then show ?case by (simp add: keep_last_def)
next
  case (Cons r rs)
  let ?m' = "snd (take_snapshot r m)"
  have step: "snapshots ?m' = keep_last 100 (snapshots m @ [build_snapshot r])"
    using Cons.prems by (simp add: snapshots_take_snapshot keep_last_def)
  have len: "length (snapshots ?m') \<le> 100"
    by (simp add: step keep_last_def)
  have "snapshots (take_snapshots (r # rs) m) =
        keep_last 100 (keep_last 100 (snapshots m @ [build_snapshot r]) @ map build_snapshot rs)"
    using Cons.IH [OF len] by (simp add: step)
  also have "\<dots> = keep_last 100 (snapshots m @ [build_snapshot r] @ map build_snapshot rs)"
    by (simp only: keep_last_append append_assoc)
  finally show ?case by simp
qed

text \<open>
  C1. Starting from an empty history, after any sequence of \<open>take_snapshot\<close> calls the
  history holds at most 100 entries, and this is so after every prefix of the sequence;
  after more than 100 calls the history is exactly the last 100 snapshots that were
  appended, in the order of their appends (the oldest are dropped first).
\<close>

theorem history_bounded_fifo:
  assumes "snapshots m = []"
  shows "length (snapshots (take_snapshots rs m)) \<le> 100 \<and>
    (\<forall>k \<le> length rs. length (snapshots (take_snapshots (take k rs) m)) \<le> 100) \<and>
    (length rs > 100 \<longrightarrow>
       snapshots (take_snapshots rs m) = drop (length rs - 100) (map build_snapshot rs)) \<and>
    (length rs \<le> 100 \<longrightarrow> snapshots (take_snapshots rs m) = map build_snapshot rs)"
proof -
  have eq: "snapshots (take_snapshots qs m) = keep_last 100 (map build_snapshot qs)" for qs
    using snapshots_take_snapshots [of m qs] assms by simp
  have bound: "length (snapshots (take_snapshots qs m)) \<le> 100" for qs
    by (simp add: eq keep_last_def)
  have full: "length rs > 100 \<longrightarrow>
        snapshots (take_snapshots rs m) = drop (length rs - 100) (map build_snapshot rs)"
    by (simp add: eq keep_last_def)
  have short: "length rs \<le> 100 \<longrightarrow> snapshots (take_snapshots rs m) = map build_snapshot rs"
    by (simp add: eq keep_last_def)
  from bound full short show ?thesis by blast
qed

theorem history_bounded_fifo_witness:
  "snapshots linux_monitor = [] \<and>
   length (map sample_readings [0..<103]) > 100 \<and>
   length (snapshots (take_snapshots (map sample_readings [0..<103]) linux_monitor)) \<le> 100 \<and>
   snapshots (take_snapshots (map sample_readings [0..<103]) linux_monitor) =
     map (\<lambda>i. build_snapshot (sample_readings i)) [3..<103]"
proof -
  have e: "snapshots linux_monitor = []"
    by (simp add: linux_monitor_def init_monitor_def)
  have d: "drop 3 [0..<103] = [3..<103]"
    by (simp add: drop_upt)
  show ?thesis
    using history_bounded_fifo [OF e, of "map sample_readings [0..<103]"] e
    by (simp add: drop_map d comp_def)
qed

section \<open>Effect of taking a snapshot\<close>

text \<open>
  C2 (as stated: taking a snapshot leaves the history unchanged). It fails: one call on the
  freshly initialised monitor leaves a history of one entry.
\<close>

theorem take_snapshot_pure_counterexample:
  "snapshots (snd (take_snapshot (sample_readings 0) linux_monitor)) \<noteq> snapshots linux_monitor \<and>
   snapshots (snd (take_snapshot_call sample_collectors linux_monitor)) \<noteq> snapshots linux_monitor"
proof -
  have c: "collect sample_collectors = Inr (sample_readings 1)"
    by (simp add: collect_def sample_collectors_def sample_readings_def and_then_def)
  show ?thesis
    by (simp add: take_snapshot_call_def c snapshots_take_snapshot linux_monitor_def init_monitor_def
          del: One_nat_def)
qed

lemma take_snapshot_returned:
  "snapshots (snd (take_snapshot r m)) = keep_last 100 (snapshots m @ [build_snapshot r]) \<and>
   platform (snd (take_snapshot r m)) = platform m \<and>
   alerts_enabled (snd (take_snapshot r m)) = alerts_enabled m \<and>
   alert_thresholds (snd (take_snapshot r m)) = alert_thresholds m \<and>
   (case fst (take_snapshot r m) of
      Inr (s, out) \<Rightarrow> s = build_snapshot r
    | Inl e \<Rightarrow> e = KeyError \<and> alerts_enabled m)"
proof -
  have exn: "e = KeyError" if "collect_alerts s th = Inl e" for s th e
    using that
    by (simp add: collect_alerts_def subscript_def Let_def split: option.splits)
  have "snapshots (snd (take_snapshot r m)) = keep_last 100 (snapshots m @ [build_snapshot r])"
    by (simp add: snapshots_take_snapshot keep_last_def)
  moreover have "platform (snd (take_snapshot r m)) = platform m"
    by (simp add: take_snapshot_def Let_def split: sum.splits)
  moreover have "alerts_enabled (snd (take_snapshot r m)) = alerts_enabled m"
    by (simp add: take_snapshot_def Let_def split: sum.splits)
  moreover have "alert_thresholds (snd (take_snapshot r m)) = alert_thresholds m"
    by (simp add: take_snapshot_def Let_def split: sum.splits)
  moreover have "(case fst (take_snapshot r m) of
      Inr (s, out) \<Rightarrow> s = build_snapshot r
    | Inl e \<Rightarrow> e = KeyError \<and> alerts_enabled m)"
    by (auto simp add: take_snapshot_def check_alerts_def Let_def split: sum.splits dest: exn)
  ultimately show ?thesis by blast
qed

text \<open>
  C2 (amended). When the collectors return their readings, \<open>take_snapshot\<close> appends the
  snapshot assembled from them to the history, which it then cuts to its last 100
  entries, and returns that snapshot, unless the alert check raises \<open>KeyError\<close> (with
  alerts enabled only; the append has happened by then). When a collector lets an
  exception escape, the call raises that exception and the whole monitor, history
  included, is as it was. In every case the platform, the alert switch and the
  thresholds are left as they were.
\<close>

theorem take_snapshot_effect:
  "(collect c = Inr r \<longrightarrow>
      snapshots (snd (take_snapshot_call c m)) = keep_last 100 (snapshots m @ [build_snapshot r]) \<and>
      (case fst (take_snapshot_call c m) of
         Inr (s, out) \<Rightarrow> s = build_snapshot r
       | Inl e \<Rightarrow> e = KeyError \<and> alerts_enabled m)) \<and>
   (collect c = Inl e \<longrightarrow> take_snapshot_call c m = (Inl e, m)) \<and>
   platform (snd (take_snapshot_call c m)) = platform m \<and>
   alerts_enabled (snd (take_snapshot_call c m)) = alerts_enabled m \<and>
   alert_thresholds (snd (take_snapshot_call c m)) = alert_thresholds m"
proof (cases "collect c")
  case (Inl x)
  then show ?thesis by (simp add: take_snapshot_call_def)
next
  case (Inr x)
  then have call: "take_snapshot_call c m = take_snapshot x m"
    by (simp add: take_snapshot_call_def)
  show ?thesis
    using take_snapshot_returned [of x m] Inr by (auto simp add: call)
qed

theorem take_snapshot_effect_witness:
  "snapshots (snd (take_snapshot_call sample_collectors linux_monitor)) =
     [build_snapshot (sample_readings 1)] \<and>
   alert_thresholds (snd (take_snapshot_call sample_collectors linux_monitor)) = init_thresholds \<and>
   take_snapshot_call failing_collectors linux_monitor = (Inl ZeroDivisionError, linux_monitor)"
proof -
  have a: "collect sample_collectors = Inr (sample_readings 1)"
    by (simp add: collect_def sample_collectors_def sample_readings_def and_then_def)
  have b: "collect failing_collectors = Inl ZeroDivisionError"
    by (simp add: collect_def failing_collectors_def sample_collectors_def and_then_def)
  have h: "snapshots linux_monitor = []" "alert_thresholds linux_monitor = init_thresholds"
    by (simp_all add: linux_monitor_def init_monitor_def)
  note ok = take_snapshot_effect [of sample_collectors "sample_readings 1" linux_monitor ZeroDivisionError]
  note ko = take_snapshot_effect [of failing_collectors "sample_readings 1" linux_monitor ZeroDivisionError]
  have i1: "snapshots (snd (take_snapshot_call sample_collectors linux_monitor)) =
      keep_last 100 (snapshots linux_monitor @ [build_snapshot (sample_readings 1)])"
    using ok a by blast
  have i2: "alert_thresholds (snd (take_snapshot_call sample_collectors linux_monitor)) =
      alert_thresholds linux_monitor"
    using ok by blast
  have i3: "take_snapshot_call failing_collectors linux_monitor = (Inl ZeroDivisionError, linux_monitor)"
    using ko b by blast
  show ?thesis
    unfolding i1 i2 i3 h by (simp add: keep_last_def)
qed

section \<open>Alert evaluation is strict, ordered and without memory\<close>

lemma collect_alerts_keys:
  assumes "th ''cpu'' = Some tc" and "th ''memory'' = Some tm" and "th ''disk'' = Some td"
  shows "collect_alerts s th =
     Inr ((if cpu_percent s > tc then [HIGH_CPU (cpu_percent s)] else []) @
          (if memory_percent s > tm then [HIGH_MEMORY (memory_percent s)] else []) @
          (if disk_percent s > td then [HIGH_DISK (disk_percent s)] else []))"
  using assms by (simp add: collect_alerts_def subscript_def)

lemma spec_evaluate_keys:
  assumes "th ''cpu'' = Some tc" and "th ''memory'' = Some tm" and "th ''disk'' = Some td"
  shows "spec_evaluate s th =
     (if cpu_percent s > tc then [HIGH_CPU (cpu_percent s)] else []) @
     (if memory_percent s > tm then [HIGH_MEMORY (memory_percent s)] else []) @
     (if disk_percent s > td then [HIGH_DISK (disk_percent s)] else [])"
  using assms by (simp add: spec_evaluate_def exceeds_def)

text \<open>
  C3. With a threshold for each of cpu, memory and disk, the alert list that
  \<open>_check_alerts\<close> builds is the one the rule prescribes: for each metric one alert
  exactly when the value is strictly above the threshold (none at equality), in the order
  cpu, memory, disk. The printed lines are these alerts between a header and a blank line.
  Nothing is remembered between evaluations: what a call of \<open>take_snapshot\<close> with
  alerts enabled emits does not depend on the history. A CPU value of 85 against the
  threshold 80 gives exactly one CPU alert, a CPU value of 50 gives none.
\<close>

theorem check_alerts_strict_ordered:
  assumes "th ''cpu'' = Some tc" and "th ''memory'' = Some tm" and "th ''disk'' = Some td"
  shows "collect_alerts s th = Inr (spec_evaluate s th) \<and>
    (\<forall>k. length (filter (\<lambda>a. alert_metric a = k) (spec_evaluate s th)) =
          (if metric_value k s > the (th (threshold_key k)) then 1 else 0)) \<and>
    (\<forall>a \<in> set (spec_evaluate s th). alert_value a = metric_value (alert_metric a) s) \<and>
    subseq (map alert_metric (spec_evaluate s th)) [Cpu, Memory, Disk] \<and>
    check_alerts s th =
      Inr (if spec_evaluate s th = [] then []
           else AlertsHeader (timestamp s) # map AlertLine (spec_evaluate s th) @ [BlankLine]) \<and>
    (alerts_enabled m \<and> alert_thresholds m = th \<and> build_snapshot r = s \<longrightarrow>
       (\<forall>h. fst (take_snapshot r (m\<lparr>snapshots := h\<rparr>)) =
          Inr (s, if spec_evaluate s th = [] then []
                  else AlertsHeader (timestamp s) # map AlertLine (spec_evaluate s th) @ [BlankLine]))) \<and>
    (cpu_percent s = tc \<longrightarrow> filter (\<lambda>a. alert_metric a = Cpu) (spec_evaluate s th) = []) \<and>
    (cpu_percent s = 85 \<and> tc = 80 \<longrightarrow>
       filter (\<lambda>a. alert_metric a = Cpu) (spec_evaluate s th) = [HIGH_CPU 85]) \<and>
    (cpu_percent s = 50 \<and> tc = 80 \<longrightarrow>
       filter (\<lambda>a. alert_metric a = Cpu) (spec_evaluate s th) = [])"
proof -
  note sp = spec_evaluate_keys [OF assms, of s]
  note co = collect_alerts_keys [OF assms, of s]
  have c1: "collect_alerts s th = Inr (spec_evaluate s th)"
    by (simp only: sp co)
  have c2: "length (filter (\<lambda>a. alert_metric a = k) (spec_evaluate s th)) =
          (if metric_value k s > the (th (threshold_key k)) then 1 else 0)" for k
    using assms by (cases k) (simp_all add: sp)
  have c3: "\<forall>a \<in> set (spec_evaluate s th). alert_value a = metric_value (alert_metric a) s"
    by (auto simp add: sp split: if_splits)
  have c4: "subseq (map alert_metric (spec_evaluate s th)) [Cpu, Memory, Disk]"
    by (simp add: sp)
  have c5: "check_alerts s th =
      Inr (if spec_evaluate s th = [] then []
           else AlertsHeader (timestamp s) # map AlertLine (spec_evaluate s th) @ [BlankLine])"
    by (simp add: check_alerts_def c1)
  have c6: "alerts_enabled m \<and> alert_thresholds m = th \<and> build_snapshot r = s \<longrightarrow>
       (\<forall>h. fst (take_snapshot r (m\<lparr>snapshots := h\<rparr>)) =
          Inr (s, if spec_evaluate s th = [] then []
                  else AlertsHeader (timestamp s) # map AlertLine (spec_evaluate s th) @ [BlankLine]))"
    using c5 by (auto simp add: take_snapshot_def Let_def)
  have c7: "cpu_percent s = tc \<longrightarrow> filter (\<lambda>a. alert_metric a = Cpu) (spec_evaluate s th) = []"
    by (simp add: sp)
  have c8: "cpu_percent s = 85 \<and> tc = 80 \<longrightarrow>
       filter (\<lambda>a. alert_metric a = Cpu) (spec_evaluate s th) = [HIGH_CPU 85]"
    by (simp add: sp)
  have c9: "cpu_percent s = 50 \<and> tc = 80 \<longrightarrow>
       filter (\<lambda>a. alert_metric a = Cpu) (spec_evaluate s th) = []"
    by (simp add: sp)
  from c1 c2 c3 c4 c5 c6 c7 c8 c9 show ?thesis by blast
qed

theorem check_alerts_strict_ordered_witness:
  "collect_alerts (sample_snapshot 85) init_thresholds = Inr [HIGH_CPU 85] \<and>
   collect_alerts (sample_snapshot 80) init_thresholds = Inr [] \<and>
   collect_alerts (sample_snapshot 50) init_thresholds = Inr [] \<and>
   collect_alerts (sample_snapshot 85) (init_thresholds(''disk'' \<mapsto> 70)) =
     Inr [HIGH_CPU 85, HIGH_DISK 90] \<and>
   check_alerts (sample_snapshot 85) init_thresholds =
     Inr [AlertsHeader ''2024-01-01 00:00:00'', AlertLine (HIGH_CPU 85), BlankLine]"
proof -
  have k: "init_thresholds ''cpu'' = Some 80" "init_thresholds ''memory'' = Some 85"
    "init_thresholds ''disk'' = Some 90"
    by (simp_all add: init_thresholds_def)
  have k': "(init_thresholds(''disk'' \<mapsto> 70)) ''cpu'' = Some 80"
    "(init_thresholds(''disk'' \<mapsto> 70)) ''memory'' = Some 85"
    "(init_thresholds(''disk'' \<mapsto> 70)) ''disk'' = Some 70"
    by (simp_all add: init_thresholds_def)
  have e: "spec_evaluate (sample_snapshot 85) init_thresholds = [HIGH_CPU 85]"
    "spec_evaluate (sample_snapshot 80) init_thresholds = []"
    "spec_evaluate (sample_snapshot 50) init_thresholds = []"
    "spec_evaluate (sample_snapshot 85) (init_thresholds(''disk'' \<mapsto> 70)) = [HIGH_CPU 85, HIGH_DISK 90]"
    by (simp_all add: spec_evaluate_def exceeds_def sample_snapshot_def init_thresholds_def)
  have a: "collect_alerts (sample_snapshot 85) init_thresholds =
        Inr (spec_evaluate (sample_snapshot 85) init_thresholds)"
    and p: "check_alerts (sample_snapshot 85) init_thresholds =
      Inr (if spec_evaluate (sample_snapshot 85) init_thresholds = [] then []
           else AlertsHeader (timestamp (sample_snapshot 85)) #
                map AlertLine (spec_evaluate (sample_snapshot 85) init_thresholds) @ [BlankLine])"
    using check_alerts_strict_ordered [OF k, of "sample_snapshot 85" linux_monitor "sample_readings 0"]
    by blast+
  have b: "collect_alerts (sample_snapshot 80) init_thresholds =
        Inr (spec_evaluate (sample_snapshot 80) init_thresholds)"
    using check_alerts_strict_ordered [OF k, of "sample_snapshot 80" linux_monitor "sample_readings 0"]
    by blast
  have c: "collect_alerts (sample_snapshot 50) init_thresholds =
        Inr (spec_evaluate (sample_snapshot 50) init_thresholds)"
    using check_alerts_strict_ordered [OF k, of "sample_snapshot 50" linux_monitor "sample_readings 0"]
    by blast
  have d: "collect_alerts (sample_snapshot 85) (init_thresholds(''disk'' \<mapsto> 70)) =
        Inr (spec_evaluate (sample_snapshot 85) (init_thresholds(''disk'' \<mapsto> 70)))"
    using check_alerts_strict_ordered [OF k', of "sample_snapshot 85" linux_monitor "sample_readings 0"]
    by blast
  have t: "timestamp (sample_snapshot 85) = ''2024-01-01 00:00:00''"
    by (simp add: sample_snapshot_def)
  show ?thesis
    by (simp add: a b c d p e t)
qed

section \<open>Thresholds are validated before they are stored\<close>

lemma threshold_step_accepted:
  "threshold_step f k line th =
     (case accepted f line of
        Some v \<Rightarrow> ([ThresholdSet k v], th(k \<mapsto> v))
      | None \<Rightarrow> (if strip line = [] then []
                 else if f (strip line) = None then [InvalidValue k] else [InvalidThreshold k], th))"
  by (simp add: threshold_step_def accepted_def Let_def split: option.splits pyfloat.splits)

lemma accepted_iff:
  "accepted f line = Some v \<longleftrightarrow>
     strip line \<noteq> [] \<and> f (strip line) = Some (Finite v) \<and> 0 < v \<and> v \<le> 100"
  by (auto simp add: accepted_def split: option.splits pyfloat.splits if_splits)

lemma threshold_loop_three:
  assumes "th ''cpu'' \<noteq> None" "th ''memory'' \<noteq> None" "th ''disk'' \<noteq> None"
  shows "threshold_loop f [''cpu'', ''memory'', ''disk''] (l1 # l2 # l3 # rest) th =
    (None,
     fst (threshold_step f ''cpu'' l1 th) @
     fst (threshold_step f ''memory'' l2 (snd (threshold_step f ''cpu'' l1 th))) @
     fst (threshold_step f ''disk'' l3 (snd (threshold_step f ''memory'' l2 (snd (threshold_step f ''cpu'' l1 th))))),
     snd (threshold_step f ''disk'' l3 (snd (threshold_step f ''memory'' l2 (snd (threshold_step f ''cpu'' l1 th))))),
     rest)"
proof -
  have keep: "snd (threshold_step f k l t) j \<noteq> None" if "t j \<noteq> None" for k l t j
    using that by (auto simp add: threshold_step_accepted split: option.splits)
  have sub: "subscript t j = Inr (the (t j))" if "t j \<noteq> None" for t :: "string \<rightharpoonup> real" and j
    using that by (auto simp add: subscript_def)
  show ?thesis
    using assms
    by (simp add: sub keep split_beta)
qed

text \<open>
  C5. For each metric, the line typed for it changes the stored threshold to \<open>v\<close> exactly
  when it is a number \<open>v\<close> with \<open>0 < v \<le> 100\<close>; text that is no number, a number outside
  that range, an infinity or a NaN is rejected with a message and every stored threshold
  stays as it was (an empty line keeps the current value without a message). A whole run
  of \<open>configure_alerts\<close> on a monitor that has its three thresholds applies this to
  cpu, memory and disk in turn, raises nothing and leaves the history alone.
\<close>

theorem configure_alerts_validated:
  "snd (threshold_step f k line th) = store_accepted f k line th \<and>
   (accepted f line = Some v \<longleftrightarrow>
      strip line \<noteq> [] \<and> f (strip line) = Some (Finite v) \<and> 0 < v \<and> v \<le> 100) \<and>
   (accepted f line = Some v \<longrightarrow>
      threshold_step f k line th = ([ThresholdSet k v], th(k \<mapsto> v))) \<and>
   (accepted f line = None \<longrightarrow> snd (threshold_step f k line th) = th) \<and>
   (strip line \<noteq> [] \<and> f (strip line) = None \<longrightarrow>
      threshold_step f k line th = ([InvalidValue k], th)) \<and>
   (strip line \<noteq> [] \<and> f (strip line) = Some (Finite v) \<and> \<not> (0 < v \<and> v \<le> 100) \<longrightarrow>
      threshold_step f k line th = ([InvalidThreshold k], th)) \<and>
   (th ''cpu'' \<noteq> None \<and> th ''memory'' \<noteq> None \<and> th ''disk'' \<noteq> None \<and> alert_thresholds m = th \<longrightarrow>
      (\<exists>msgs m'. configure_alerts f [l1, l2, l3, answer] m = (None, msgs, m') \<and>
         snapshots m' = snapshots m \<and>
         alert_thresholds m' =
           store_accepted f ''disk'' l3 (store_accepted f ''memory'' l2 (store_accepted f ''cpu'' l1 th)) \<and>
         alerts_enabled m' = (if lower answer = ''y'' then \<not> alerts_enabled m else alerts_enabled m)))"
proof -
  have s1: "snd (threshold_step g j l t) = store_accepted g j l t" for g j l t
    by (simp add: threshold_step_accepted store_accepted_def split: option.splits)
  have s2: "accepted f line = Some v \<longrightarrow>
      threshold_step f k line th = ([ThresholdSet k v], th(k \<mapsto> v))"
    by (simp add: threshold_step_accepted)
  have s3: "accepted f line = None \<longrightarrow> snd (threshold_step f k line th) = th"
    by (simp add: threshold_step_accepted)
  have s4: "strip line \<noteq> [] \<and> f (strip line) = None \<longrightarrow>
      threshold_step f k line th = ([InvalidValue k], th)"
    by (simp add: threshold_step_def)
  have s5: "strip line \<noteq> [] \<and> f (strip line) = Some (Finite v) \<and> \<not> (0 < v \<and> v \<le> 100) \<longrightarrow>
      threshold_step f k line th = ([InvalidThreshold k], th)"
    by (simp add: threshold_step_def)
  have s6: "th ''cpu'' \<noteq> None \<and> th ''memory'' \<noteq> None \<and> th ''disk'' \<noteq> None \<and> alert_thresholds m = th \<longrightarrow>
      (\<exists>msgs m'. configure_alerts f [l1, l2, l3, answer] m = (None, msgs, m') \<and>
         snapshots m' = snapshots m \<and>
         alert_thresholds m' =
           store_accepted f ''disk'' l3 (store_accepted f ''memory'' l2 (store_accepted f ''cpu'' l1 th)) \<and>
         alerts_enabled m' = (if lower answer = ''y'' then \<not> alerts_enabled m else alerts_enabled m))"
  proof
    assume a: "th ''cpu'' \<noteq> None \<and> th ''memory'' \<noteq> None \<and> th ''disk'' \<noteq> None \<and> alert_thresholds m = th"
    then have l: "threshold_loop f [''cpu'', ''memory'', ''disk''] [l1, l2, l3, answer] th =
      (None,
       fst (threshold_step f ''cpu'' l1 th) @
       fst (threshold_step f ''memory'' l2 (snd (threshold_step f ''cpu'' l1 th))) @
       fst (threshold_step f ''disk'' l3
             (snd (threshold_step f ''memory'' l2 (snd (threshold_step f ''cpu'' l1 th))))),
       snd (threshold_step f ''disk'' l3
             (snd (threshold_step f ''memory'' l2 (snd (threshold_step f ''cpu'' l1 th))))),
       [answer])"
      by (intro threshold_loop_three) simp_all
    from a have th: "alert_thresholds m = th" by simp
    show "\<exists>msgs m'. configure_alerts f [l1, l2, l3, answer] m = (None, msgs, m') \<and>
         snapshots m' = snapshots m \<and>
         alert_thresholds m' =
           store_accepted f ''disk'' l3 (store_accepted f ''memory'' l2 (store_accepted f ''cpu'' l1 th)) \<and>
         alerts_enabled m' = (if lower answer = ''y'' then \<not> alerts_enabled m else alerts_enabled m)"
      unfolding configure_alerts_def th l by (simp add: s1)
  qed
  from s1 [of f k line th] accepted_iff [of f line v] s2 s3 s4 s5 s6 show ?thesis by blast
qed

theorem configure_alerts_validated_witness:
  "snd (threshold_step sample_float ''cpu'' '' 75 '' init_thresholds) = init_thresholds(''cpu'' \<mapsto> 75) \<and>
   snd (threshold_step sample_float ''cpu'' ''100'' init_thresholds) = init_thresholds(''cpu'' \<mapsto> 100) \<and>
   snd (threshold_step sample_float ''cpu'' ''150'' init_thresholds) = init_thresholds \<and>
   snd (threshold_step sample_float ''cpu'' ''0'' init_thresholds) = init_thresholds \<and>
   snd (threshold_step sample_float ''cpu'' ''nan'' init_thresholds) = init_thresholds \<and>
   snd (threshold_step sample_float ''cpu'' ''abc'' init_thresholds) = init_thresholds"
proof -
  have a: "accepted sample_float '' 75 '' = Some 75" "accepted sample_float ''100'' = Some 100"
    "accepted sample_float ''150'' = None" "accepted sample_float ''0'' = None"
    "accepted sample_float ''nan'' = None" "accepted sample_float ''abc'' = None"
    by (simp_all add: accepted_def strip_def is_space_def sample_float_def)
  show ?thesis
    using configure_alerts_validated [of sample_float "''cpu''" "'' 75 ''" init_thresholds 75]
      configure_alerts_validated [of sample_float "''cpu''" "''100''" init_thresholds 100]
      configure_alerts_validated [of sample_float "''cpu''" "''150''" init_thresholds 150]
      configure_alerts_validated [of sample_float "''cpu''" "''0''" init_thresholds 0]
      configure_alerts_validated [of sample_float "''cpu''" "''nan''" init_thresholds 0]
      configure_alerts_validated [of sample_float "''cpu''" "''abc''" init_thresholds 0]
    by (simp add: a store_accepted_def)
qed

section \<open>Disk usage raises only on a malformed path\<close>

lemma disk_bytes_exn:
  "disk_bytes env p = Inl e \<Longrightarrow>
     e = OSError \<or> e = AttributeError \<or> e = ValueError \<or> e = UnicodeEncodeError"
  by (auto simp add: disk_bytes_def os_statvfs_def c_wchar_p_def and_then_def getattr_def Let_def
        split: if_splits option.splits prod.splits)

lemma disk_bytes_exn_well_formed:
  "well_formed_path env p \<Longrightarrow> disk_bytes env p = Inl e \<Longrightarrow> e = OSError \<or> e = AttributeError"
  by (auto simp add: disk_bytes_def os_statvfs_def c_wchar_p_def and_then_def getattr_def Let_def
        well_formed_path_def split: if_splits option.splits prod.splits)

lemma disk_usage_body_cases:
  "disk_usage_body to_float env p =
     (case disk_bytes env p of
        Inl e \<Rightarrow> Inl e
      | Inr (total_bytes, used_bytes) \<Rightarrow>
          Inr (if total_bytes > 0
               then to_float (to_float (real_of_int used_bytes / real_of_int total_bytes) * 100)
               else 0,
               to_float (real_of_int used_bytes / 1024 ^ 3),
               to_float (real_of_int total_bytes / 1024 ^ 3)))"
  by (auto simp add: disk_usage_body_def and_then_def truediv_def split: sum.splits)

lemma get_disk_usage_well_formed:
  "well_formed_path env p \<Longrightarrow> \<exists>t. get_disk_usage to_float env plat (Some p) = Inr t"
  by (auto simp add: get_disk_usage_def disk_usage_body_cases Let_def split: sum.splits
        dest: disk_bytes_exn_well_formed)

lemma get_disk_usage_default:
  "well_formed_path env (default_path plat) \<Longrightarrow> \<exists>t. get_disk_usage to_float env plat None = Inr t"
  by (auto simp add: get_disk_usage_def disk_usage_body_cases Let_def split: sum.splits
        dest: disk_bytes_exn_well_formed)

text \<open>
  C10 (as stated: for every path argument the operation never raises). It fails: on a
  host with \<open>statvfs\<close>, the path that consists of one NUL character makes the path
  conversion raise \<open>ValueError\<close>, which the handler does not catch.
\<close>

theorem get_disk_usage_never_raises_counterexample:
  "\<forall>to_float. get_disk_usage to_float posix_env ''linux'' (Some [CHR 0x00]) = Inl ValueError \<and>
     \<not> (\<exists>t. get_disk_usage to_float posix_env ''linux'' (Some [CHR 0x00]) = Inr t)"
  by (simp add: get_disk_usage_def disk_usage_body_def disk_bytes_def os_statvfs_def and_then_def
        posix_env_def)

text \<open>
  C10 (amended). For every path argument that has no NUL character and that the host
  can encode (the default path, when none is given, being without NUL),
  \<open>get_disk_usage\<close> returns a triple and raises nothing; for every path whatsoever its
  \<open>try\<close> block never ends in a \<open>ZeroDivisionError\<close>. When the total size obtained is 0
  the percentage is 0, with no division by the total. When the query fails (an
  \<open>OSError\<close> from \<open>statvfs\<close>) or an attribute it needs does not exist, the result is the
  triple of zeros. On a host with \<open>statvfs\<close>, a path with a NUL character raises
  \<open>ValueError\<close> and a path the host cannot encode raises \<open>UnicodeEncodeError\<close>.
\<close>

theorem get_disk_usage_raises_only_on_bad_path:
  "(well_formed_path env p \<longrightarrow> (\<exists>t. get_disk_usage to_float env plat (Some p) = Inr t)) \<and>
   (well_formed_path env (default_path plat) \<longrightarrow> (\<exists>t. get_disk_usage to_float env plat None = Inr t)) \<and>
   (encodable env (default_path plat) \<longrightarrow> well_formed_path env (default_path plat)) \<and>
   disk_usage_body to_float env p \<noteq> Inl ZeroDivisionError \<and>
   (disk_bytes env p = Inr (0, used) \<longrightarrow>
      (\<exists>used_gb total_gb. get_disk_usage to_float env plat (Some p) = Inr (0, used_gb, total_gb))) \<and>
   (has_statvfs env \<and> well_formed_path env p \<and> statvfs env p = None \<longrightarrow>
      get_disk_usage to_float env plat (Some p) = Inr (0, 0, 0)) \<and>
   (disk_bytes env p = Inl OSError \<or> disk_bytes env p = Inl AttributeError \<longrightarrow>
      get_disk_usage to_float env plat (Some p) = Inr (0, 0, 0)) \<and>
   (has_statvfs env \<and> encodable env p \<and> CHR 0x00 \<in> set p \<longrightarrow>
      get_disk_usage to_float env plat (Some p) = Inl ValueError) \<and>
   (has_statvfs env \<and> \<not> encodable env p \<longrightarrow>
      get_disk_usage to_float env plat (Some p) = Inl UnicodeEncodeError)"
proof -
  have a: "well_formed_path env p \<longrightarrow> (\<exists>t. get_disk_usage to_float env plat (Some p) = Inr t)"
    using get_disk_usage_well_formed by blast
  have a': "well_formed_path env (default_path plat) \<longrightarrow>
      (\<exists>t. get_disk_usage to_float env plat None = Inr t)"
    using get_disk_usage_default by blast
  have a'': "encodable env (default_path plat) \<longrightarrow> well_formed_path env (default_path plat)"
    by (simp add: well_formed_path_def default_path_def)
  have b: "disk_usage_body to_float env p \<noteq> Inl ZeroDivisionError"
    by (auto simp add: disk_usage_body_cases split: sum.splits dest: disk_bytes_exn)
  have c: "disk_bytes env p = Inr (0, used) \<longrightarrow>
      (\<exists>used_gb total_gb. get_disk_usage to_float env plat (Some p) = Inr (0, used_gb, total_gb))"
    by (simp add: get_disk_usage_def disk_usage_body_cases)
  have d: "has_statvfs env \<and> well_formed_path env p \<and> statvfs env p = None \<longrightarrow>
      get_disk_usage to_float env plat (Some p) = Inr (0, 0, 0)"
    by (simp add: get_disk_usage_def disk_usage_body_cases disk_bytes_def os_statvfs_def
          and_then_def well_formed_path_def)
  have e: "disk_bytes env p = Inl OSError \<or> disk_bytes env p = Inl AttributeError \<longrightarrow>
      get_disk_usage to_float env plat (Some p) = Inr (0, 0, 0)"
    by (auto simp add: get_disk_usage_def disk_usage_body_cases)
  have f: "has_statvfs env \<and> encodable env p \<and> CHR 0x00 \<in> set p \<longrightarrow>
      get_disk_usage to_float env plat (Some p) = Inl ValueError"
    by (simp add: get_disk_usage_def disk_usage_body_cases disk_bytes_def os_statvfs_def and_then_def)
  have g: "has_statvfs env \<and> \<not> encodable env p \<longrightarrow>
      get_disk_usage to_float env plat (Some p) = Inl UnicodeEncodeError"
    by (simp add: get_disk_usage_def disk_usage_body_cases disk_bytes_def os_statvfs_def and_then_def)
  from a a' a'' b c d e f g show ?thesis by blast
qed

theorem get_disk_usage_raises_only_on_bad_path_witness:
  "(\<exists>used_gb total_gb.
      get_disk_usage nearest_double empty_fs_env ''linux'' (Some ''/'') = Inr (0, used_gb, total_gb)) \<and>
   get_disk_usage nearest_double failing_env ''linux'' (Some ''/'') = Inr (0, 0, 0) \<and>
   get_disk_usage nearest_double posix_env ''linux'' (Some ''/'') = Inr (0, 0, 0) \<and>
   (\<exists>t. get_disk_usage nearest_double quarter_free_env ''linux'' None = Inr t) \<and>
   (\<exists>t. get_disk_usage nearest_double quarter_free_env ''linux'' (Some ''/home'') = Inr t) \<and>
   get_disk_usage nearest_double quarter_free_env ''linux'' (Some [CHR ''a'', CHR 0x00]) = Inl ValueError"
proof -
  have b: "disk_bytes empty_fs_env ''/'' = Inr (0, 0)"
    by (simp add: disk_bytes_def os_statvfs_def empty_fs_env_def and_then_def getattr_def)
  have f: "has_statvfs failing_env \<and> well_formed_path failing_env ''/'' \<and> statvfs failing_env ''/'' = None"
    by (simp add: failing_env_def well_formed_path_def)
  have x: "disk_bytes posix_env ''/'' = Inl AttributeError"
    by (simp add: disk_bytes_def os_statvfs_def posix_env_def and_then_def getattr_def)
  have w: "well_formed_path quarter_free_env ''/home''"
    "encodable quarter_free_env (default_path ''linux'')"
    by (simp_all add: well_formed_path_def quarter_free_env_def)
  have n: "has_statvfs quarter_free_env \<and> encodable quarter_free_env [CHR ''a'', CHR 0x00] \<and>
      CHR 0x00 \<in> set [CHR ''a'', CHR 0x00]"
    by (simp add: quarter_free_env_def)
  note i1 = get_disk_usage_raises_only_on_bad_path [of empty_fs_env "''/''" nearest_double "''linux''" 0]
  note i2 = get_disk_usage_raises_only_on_bad_path [of failing_env "''/''" nearest_double "''linux''" 0]
  note i3 = get_disk_usage_raises_only_on_bad_path [of posix_env "''/''" nearest_double "''linux''" 0]
  note i4 = get_disk_usage_raises_only_on_bad_path
    [of quarter_free_env "''/home''" nearest_double "''linux''" 0]
  note i5 = get_disk_usage_raises_only_on_bad_path
    [of quarter_free_env "[CHR ''a'', CHR 0x00]" nearest_double "''linux''" 0]
  have c1: "\<exists>used_gb total_gb.
      get_disk_usage nearest_double empty_fs_env ''linux'' (Some ''/'') = Inr (0, used_gb, total_gb)"
    using i1 b by blast
  have c2: "get_disk_usage nearest_double failing_env ''linux'' (Some ''/'') = Inr (0, 0, 0)"
    using i2 f by blast
  have c3: "get_disk_usage nearest_double posix_env ''linux'' (Some ''/'') = Inr (0, 0, 0)"
    using i3 x by blast
  have c4: "\<exists>t. get_disk_usage nearest_double quarter_free_env ''linux'' None = Inr t"
    using i4 w(2) by blast
  have c5: "\<exists>t. get_disk_usage nearest_double quarter_free_env ''linux'' (Some ''/home'') = Inr t"
    using i4 w(1) by blast
  have c6: "get_disk_usage nearest_double quarter_free_env ''linux'' (Some [CHR ''a'', CHR 0x00]) =
      Inl ValueError"
    using i5 n by blast
  from c1 c2 c3 c4 c5 c6 show ?thesis by blast
qed

section \<open>The trend needs ten data points\<close>

lemma mean_nonempty: "xs \<noteq> [] \<Longrightarrow> mean to_float xs = Inr (to_float (arithmetic_mean xs))"
  by (simp add: mean_def arithmetic_mean_def)

lemma cpu_trend_lines_short: "length vs < 10 \<Longrightarrow> cpu_trend_lines to_float vs = Inr []"
  by (simp add: cpu_trend_lines_def)

lemma cpu_trend_lines_long:
  assumes "length vs \<ge> 10"
  shows "cpu_trend_lines to_float vs =
     Inr [CpuTrend (if to_float (arithmetic_mean (keep_last 5 vs)) > to_float (arithmetic_mean (take 5 vs))
                    then Increasing else Decreasing)
            (to_float (arithmetic_mean (keep_last 5 vs))) (to_float (arithmetic_mean (take 5 vs)))]"
proof -
  have a: "keep_last 5 vs \<noteq> []" and b: "take 5 vs \<noteq> []"
    using assms by (auto simp add: keep_last_def)
  show ?thesis
    unfolding cpu_trend_lines_def mean_nonempty [OF a] mean_nonempty [OF b]
    using assms by (simp add: and_then_def)
qed

lemma display_historical_analysis_trend:
  assumes "length snaps \<ge> 2" and "cpu_trend_lines to_float (map cpu_percent snaps) = Inr trend"
  shows "case display_historical_analysis to_float snaps of
           Inl e \<Rightarrow> False
         | Inr out \<Rightarrow> filter is_trend out = filter is_trend trend \<and>
             length out = 4 + length trend \<and>
             (NotEnoughData \<in> set out \<longleftrightarrow> NotEnoughData \<in> set trend)"
proof -
  from assms(1) obtain x y rest where s: "snaps = x # y # rest"
    by (cases snaps; cases "tl snaps") auto
  show ?thesis
    using assms(2) unfolding s display_historical_analysis_def
    by (simp add: and_then_def item_first_def item_last_def mean_def py_max_def py_min_def Let_def
          del: last.simps)
qed

lemma display_historical_analysis_few:
  "length snaps < 2 \<Longrightarrow> display_historical_analysis to_float snaps = Inr [NotEnoughData]"
  by (simp add: display_historical_analysis_def)

text \<open>
  C7 (as stated: a window of fewer than 10 points reports insufficient data). It
  fails: for a history of three snapshots the analysis prints four lines of statistics,
  none of which says that the data do not suffice, and no trend line; this is so whatever
  the rounding of the means.
\<close>

theorem trend_insufficient_data_counterexample:
  "\<forall>to_float. \<exists>out. display_historical_analysis to_float short_history = Inr out \<and>
      length short_history < 10 \<and> NotEnoughData \<notin> set out \<and> length out = 4 \<and>
      filter is_trend out = []"
proof
  fix to_float :: rounding
  have two: "length short_history \<ge> 2"
    by (simp add: short_history_def)
  have t: "cpu_trend_lines to_float (map cpu_percent short_history) = Inr []"
    by (simp add: cpu_trend_lines_short short_history_def)
  show "\<exists>out. display_historical_analysis to_float short_history = Inr out \<and>
      length short_history < 10 \<and> NotEnoughData \<notin> set out \<and> length out = 4 \<and>
      filter is_trend out = []"
    using display_historical_analysis_trend [OF two t]
    by (simp add: short_history_def split: sum.splits)
qed

text \<open>
  C7 (amended). With fewer than 10 snapshots in the history the analysis reports no
  direction. Below 2 snapshots its whole output is the message that there is not enough
  data; from 2 to 9 snapshots it prints the statistics, with no trend line and with no
  message about insufficient data. With at least 10 snapshots the output has exactly one
  trend line; it carries the mean of the last 5 CPU values and the mean of the first 5,
  each as \<open>statistics.mean\<close> returns it (the arithmetic mean rounded to a double), and
  its direction is increasing when the former is strictly greater and decreasing
  otherwise.
\<close>

theorem trend_needs_ten_points:
  "(length snaps < 2 \<longrightarrow> display_historical_analysis to_float snaps = Inr [NotEnoughData]) \<and>
   (2 \<le> length snaps \<and> length snaps < 10 \<longrightarrow>
      (\<exists>out. display_historical_analysis to_float snaps = Inr out \<and>
         filter is_trend out = [] \<and> NotEnoughData \<notin> set out \<and> length out = 4)) \<and>
   (length snaps \<ge> 10 \<longrightarrow>
      (\<exists>out. display_historical_analysis to_float snaps = Inr out \<and>
         NotEnoughData \<notin> set out \<and>
         filter is_trend out =
           [CpuTrend
              (if to_float (arithmetic_mean (keep_last 5 (map cpu_percent snaps))) >
                  to_float (arithmetic_mean (take 5 (map cpu_percent snaps)))
               then Increasing else Decreasing)
              (to_float (arithmetic_mean (keep_last 5 (map cpu_percent snaps))))
              (to_float (arithmetic_mean (take 5 (map cpu_percent snaps))))]) \<and>
      length (keep_last 5 (map cpu_percent snaps)) = 5 \<and>
      length (take 5 (map cpu_percent snaps)) = 5 \<and>
      keep_last 5 (map cpu_percent snaps) = map cpu_percent (drop (length snaps - 5) snaps))"
proof -
  have short: "\<exists>out. display_historical_analysis to_float snaps = Inr out \<and>
         filter is_trend out = [] \<and> NotEnoughData \<notin> set out \<and> length out = 4"
    if "2 \<le> length snaps \<and> length snaps < 10"
  proof -
    from that have two: "length snaps \<ge> 2" by simp
    have t: "cpu_trend_lines to_float (map cpu_percent snaps) = Inr []"
      using that by (simp add: cpu_trend_lines_short)
    show ?thesis
      using display_historical_analysis_trend [OF two t] by (simp split: sum.splits)
  qed
  have long: "\<exists>out. display_historical_analysis to_float snaps = Inr out \<and>
         NotEnoughData \<notin> set out \<and>
         filter is_trend out =
           [CpuTrend
              (if to_float (arithmetic_mean (keep_last 5 (map cpu_percent snaps))) >
                  to_float (arithmetic_mean (take 5 (map cpu_percent snaps)))
               then Increasing else Decreasing)
              (to_float (arithmetic_mean (keep_last 5 (map cpu_percent snaps))))
              (to_float (arithmetic_mean (take 5 (map cpu_percent snaps))))]"
    if "length snaps \<ge> 10"
  proof -
    from that have two: "length snaps \<ge> 2" by simp
    from that have ten: "length (map cpu_percent snaps) \<ge> 10" by simp
    show ?thesis
      using display_historical_analysis_trend [OF two cpu_trend_lines_long [OF ten, of to_float]]
      by (simp split: sum.splits)
  qed
  have sizes: "length (keep_last 5 (map cpu_percent snaps)) = 5 \<and>
      length (take 5 (map cpu_percent snaps)) = 5 \<and>
      keep_last 5 (map cpu_percent snaps) = map cpu_percent (drop (length snaps - 5) snaps)"
    if "length snaps \<ge> 10"
    using that by (simp add: keep_last_def drop_map)
  from short long sizes display_historical_analysis_few [of snaps to_float] show ?thesis by blast
qed

theorem trend_needs_ten_points_witness:
  "(\<exists>out. display_historical_analysis nearest_double short_history = Inr out \<and>
      filter is_trend out = [] \<and> NotEnoughData \<notin> set out) \<and>
   (\<exists>out. display_historical_analysis nearest_double busy_history = Inr out \<and>
      filter is_trend out = [CpuTrend Increasing 49 42])"
proof -
  have l: "2 \<le> length short_history \<and> length short_history < 10" "length busy_history \<ge> 10"
    by (simp_all add: short_history_def busy_history_def)
  have m: "arithmetic_mean (keep_last 5 (map cpu_percent busy_history)) = 49"
    "arithmetic_mean (take 5 (map cpu_percent busy_history)) = 42"
    by (simp_all add: arithmetic_mean_def keep_last_def busy_history_def sample_snapshot_def)
  have n: "nearest_double 49 = 49" "nearest_double 42 = 42"
    by (simp_all add: nearest_double_def)
  note i1 = trend_needs_ten_points [of short_history nearest_double]
  note i2 = trend_needs_ten_points [of busy_history nearest_double]
  have a: "\<exists>out. display_historical_analysis nearest_double short_history = Inr out \<and>
      filter is_trend out = [] \<and> NotEnoughData \<notin> set out"
    using i1 l(1) by blast
  have b: "\<exists>out. display_historical_analysis nearest_double busy_history = Inr out \<and>
      filter is_trend out = [CpuTrend Increasing 49 42]"
    using i2 l(2) by (auto simp add: m n)
  from a b show ?thesis by blast
qed

section \<open>Connection quality\<close>

lemma valid_pings_empty_iff:
  "valid_pings c = [] \<longleftrightarrow> (\<forall>h p. (h, p) \<in> set c \<longrightarrow> p = None)"
  by (induction c) (auto simp add: valid_pings_def split: option.splits)

lemma set_valid_pings: "set (valid_pings c) = {p. \<exists>h. (h, Some p) \<in> set c}"
  by (induction c) (auto simp add: valid_pings_def split: option.splits)

text \<open>
  C9 (as stated: with zero responding hosts it is reported that there is no data). It fails: when none
  of the four test servers answered, the connectivity summary is empty; nothing is
  reported, whatever the rounding.
\<close>

theorem no_data_reported_counterexample:
  "\<forall>to_float. valid_pings no_answers = [] \<and> run_network_analysis to_float no_answers = Inr []"
  by (simp add: run_network_analysis_def valid_pings_def no_answers_def)

text \<open>
  C9 (amended). The connectivity summary is defined for every result dictionary and
  raises nothing. When no host answered (every entry is \<open>None\<close>) the summary is empty:
  neither a quality nor a message that there is no data is reported. Otherwise exactly
  one quality is reported, a function of the average of the round-trip times that are
  present, as \<open>statistics.mean\<close> returns it (the arithmetic mean rounded to a double):
  excellent strictly below 50 ms, otherwise good strictly below 100 ms, otherwise poor.
\<close>

theorem connection_quality_by_average:
  "(\<exists>out. run_network_analysis to_float c = Inr out) \<and>
   (valid_pings c = [] \<longleftrightarrow> (\<forall>h p. (h, p) \<in> set c \<longrightarrow> p = None)) \<and>
   set (valid_pings c) = {p. \<exists>h. (h, Some p) \<in> set c} \<and>
   (valid_pings c = [] \<longrightarrow> run_network_analysis to_float c = Inr []) \<and>
   (valid_pings c \<noteq> [] \<longrightarrow>
      (\<exists>out. run_network_analysis to_float c = Inr out \<and>
         filter is_quality out =
           [ConnectionQuality
              (if to_float (arithmetic_mean (valid_pings c)) < 50 then Excellent
               else if to_float (arithmetic_mean (valid_pings c)) < 100 then Good else Poor)]))"
proof -
  have a: "\<exists>out. run_network_analysis to_float c = Inr out"
    by (simp add: run_network_analysis_def and_then_def mean_def Let_def)
  have b: "valid_pings c = [] \<longrightarrow> run_network_analysis to_float c = Inr []"
    by (simp add: run_network_analysis_def)
  have d: "valid_pings c \<noteq> [] \<longrightarrow>
      (\<exists>out. run_network_analysis to_float c = Inr out \<and>
         filter is_quality out =
           [ConnectionQuality
              (if to_float (arithmetic_mean (valid_pings c)) < 50 then Excellent
               else if to_float (arithmetic_mean (valid_pings c)) < 100 then Good else Poor)])"
    by (simp add: run_network_analysis_def and_then_def mean_nonempty Let_def)
  from a b d valid_pings_empty_iff [of c] set_valid_pings [of c] show ?thesis by blast
qed

lemma nearest_double_near_fifty: "nearest_double ((50 + 50 + (50 - 1 / 2 ^ 47)) / 3) = 50"
proof -
  have "(50 + 50 + (50 - 1 / 2 ^ 47)) / 3 * 2 ^ 47 = (real_of_int (50 * 2 ^ 47) - 1 / 3 :: real)"
    by simp
  moreover have "round (real_of_int (50 * 2 ^ 47) - 1 / 3 :: real) = 50 * 2 ^ 47"
    unfolding round_def by linarith
  ultimately show ?thesis
    by (simp add: nearest_double_def)
qed

theorem connection_quality_by_average_witness:
  "run_network_analysis nearest_double no_answers = Inr [] \<and>
   arithmetic_mean (valid_pings near_fifty) < 50 \<and>
   (\<exists>out. run_network_analysis nearest_double near_fifty = Inr out \<and>
      filter is_quality out = [ConnectionQuality Good])"
proof -
  have v: "valid_pings no_answers = []" "valid_pings near_fifty = [50, 50, 50 - 1 / 2 ^ 47]"
    by (simp_all add: valid_pings_def no_answers_def near_fifty_def)
  have m: "arithmetic_mean [50, 50, 50 - 1 / 2 ^ 47] = (50 + 50 + (50 - 1 / 2 ^ 47)) / 3"
    by (simp add: arithmetic_mean_def)
  have lt: "(50 + 50 + (50 - 1 / 2 ^ 47)) / 3 < (50::real)"
    by simp
  note i1 = connection_quality_by_average [of nearest_double no_answers]
  note i2 = connection_quality_by_average [of nearest_double near_fifty]
  have a: "run_network_analysis nearest_double no_answers = Inr []"
    using i1 v(1) by blast
  have b: "\<exists>out. run_network_analysis nearest_double near_fifty = Inr out \<and>
      filter is_quality out = [ConnectionQuality Good]"
    using i2 unfolding v(2) m nearest_double_near_fifty by simp
  have c: "arithmetic_mean (valid_pings near_fifty) < 50"
    unfolding v(2) m by (rule lt)
  from a b c show ?thesis by blast
qed

section \<open>Saving and loading is a round trip\<close>

lemma snapshot_of_dict_asdict: "snapshot_of_dict (JObject (asdict s)) = Inr s"
  by (cases s) (simp add: snapshot_of_dict_def asdict_def field_names_def and_then_def subscript_def)

lemma map_exn_roundtrip:
  "map_exn snapshot_of_dict (map (\<lambda>snapshot. JObject (asdict snapshot)) xs) = Inr xs"
  by (induction xs) (simp_all add: snapshot_of_dict_asdict and_then_def)

lemma load_snapshots_save_data: "load_snapshots (save_data now h) = Inr (keep_last 50 h)"
  by (simp add: load_snapshots_def save_data_def get_snapshots_def iterate_def and_then_def
        map_exn_roundtrip)

lemma load_saved_history:
  "length h \<le> 50 \<Longrightarrow>
   load_historical_data (Document (save_data now h)) m = (None, [Loaded (length h)], m\<lparr>snapshots := h\<rparr>)"
  by (simp add: load_historical_data_def load_snapshots_save_data keep_last_def)

text \<open>
  C8. For every history of 5 snapshots, the document that \<open>save_data\<close> writes is read
  back by \<open>load_historical_data\<close> as the same sequence of snapshots, equal to the
  original in every field and in order: each flat record is turned back into the snapshot
  it came from, loading raises nothing and reports 5 loaded snapshots.
\<close>

theorem save_load_roundtrip:
  assumes "length h = 5"
  shows "load_snapshots (save_data now h) = Inr h \<and>
    load_historical_data (Document (save_data now h)) m = (None, [Loaded 5], m\<lparr>snapshots := h\<rparr>) \<and>
    snapshots (snd (snd (load_historical_data (Document (save_data now h)) m))) = h \<and>
    (\<forall>s \<in> set h. snapshot_of_dict (JObject (asdict s)) = Inr s)"
proof -
  have a: "load_snapshots (save_data now h) = Inr h"
    using assms by (simp add: load_snapshots_save_data keep_last_def)
  have b: "load_historical_data (Document (save_data now h)) m = (None, [Loaded 5], m\<lparr>snapshots := h\<rparr>)"
    using assms load_saved_history [of h now m] by simp
  have c: "snapshots (snd (snd (load_historical_data (Document (save_data now h)) m))) = h"
    by (simp add: b)
  have d: "\<forall>s \<in> set h. snapshot_of_dict (JObject (asdict s)) = Inr s"
    by (simp add: snapshot_of_dict_asdict)
  from a b c d show ?thesis by blast
qed

theorem save_load_roundtrip_witness:
  "length five_history = 5 \<and>
   load_snapshots (save_data ''2024-01-01T00:00:05'' five_history) = Inr five_history \<and>
   snapshots (snd (snd (load_historical_data
      (Document (save_data ''2024-01-01T00:00:05'' five_history)) linux_monitor))) = five_history"
proof -
  have l: "length five_history = 5"
    by (simp add: five_history_def)
  show ?thesis
    using save_load_roundtrip [OF l, of "''2024-01-01T00:00:05''" linux_monitor] l by simp
qed

section \<open>The probes run one after another\<close>


















section \<open>Stopping while a cycle is under way\<close>

text \<open>
  C6. The claim is that no append occurs after \<open>stop_monitoring\<close> has returned,
  because the stop waits for the cycle under way. The code does not keep to it. Monitoring
  starts at time 0 with an interval of 5 seconds, the collectors of the first cycle take 3
  seconds, and the stop is asked for at 0.5 seconds. The thread has read the flag at time
  0, so it finishes its cycle: it appends at 3 seconds and ends at 8, after its sleep.
  The join gives up after its one second, so \<open>stop_monitoring\<close> has returned at 1.5
  seconds, and the append comes after that, on to a history that was empty when the stop
  returned.
\<close>

theorem stop_returns_before_append:
  "monitor_loop (1 / 2) 5 [(3, sample_collectors)] 0 linux_monitor =
     Some ([3], 8, snd (take_snapshot_call sample_collectors linux_monitor)) \<and>
   snapshots linux_monitor = [] \<and>
   snapshots (snd (take_snapshot_call sample_collectors linux_monitor)) =
     [build_snapshot (sample_readings 1)] \<and>
   stop_monitoring (1 / 2) 8 = 3 / 2 \<and>
   \<not> no_append_after (stop_monitoring (1 / 2) 8) [3]"
proof -
  have c: "collect sample_collectors = Inr (sample_readings 1)"
    by (simp add: collect_def sample_collectors_def sample_readings_def and_then_def)
  have call: "take_snapshot_call sample_collectors linux_monitor =
      take_snapshot (sample_readings 1) linux_monitor"
    by (simp add: take_snapshot_call_def c)
  have k: "collect_alerts (build_snapshot (sample_readings 1)) init_thresholds = Inr []"
    by (simp add: collect_alerts_def subscript_def init_thresholds_def build_snapshot_def
          sample_readings_def)
  have t: "take_snapshot (sample_readings 1) linux_monitor =
      (Inr (build_snapshot (sample_readings 1), []),
       linux_monitor\<lparr>snapshots := [build_snapshot (sample_readings 1)]\<rparr>)"
    by (simp add: take_snapshot_def check_alerts_def k linux_monitor_def init_monitor_def Let_def
          del: One_nat_def)
  have l: "monitor_loop (1 / 2) 5 [(3, sample_collectors)] 0 linux_monitor =
     Some ([3], 8, snd (take_snapshot_call sample_collectors linux_monitor))"
    by (simp add: c call t del: One_nat_def)
  have e: "snapshots linux_monitor = []"
    by (simp add: linux_monitor_def init_monitor_def)
  have a: "snapshots (snd (take_snapshot_call sample_collectors linux_monitor)) =
     [build_snapshot (sample_readings 1)]"
    by (simp add: call t del: One_nat_def)
  have s: "stop_monitoring (1 / 2) 8 = 3 / 2"
    by (simp add: stop_monitoring_def join_def)
  have n: "\<not> no_append_after (stop_monitoring (1 / 2) 8) [3]"
    by (simp add: s no_append_after_def)
  from l e a s n show ?thesis by blast
qed

end
